theory Spec2Isabelle
  imports Main
begin

section \<open>SylMan: the client-side form synchronisation code\<close>

text \<open>
  The theory embeds the browser code of the syllabus editor: the module manager
  (moduleManager.js), the SLO cell operations and the form assembler and populator
  (formUtils.js), the weighting total (eventInit.js and formUtils.js) and the save
  routine (formSubmit.js). Each definition keeps the name of the JavaScript function it
  translates. The DOM is explicit state: every function takes the part of the page it
  reads and returns the part it writes. Strings are ASCII strings.
\<close>

subsection \<open>Number to string conversion and padding\<close>

text \<open>
  Template literals and \<^verbatim>\<open>toString()\<close> print a whole number in decimal;
  \<^verbatim>\<open>padStart(2, "0")\<close> pads on the left to two characters.
\<close>

definition digitChar :: "nat \<Rightarrow> char" where
  "digitChar n = ''0123456789'' ! n"

function showNat :: "nat \<Rightarrow> string" where
  "showNat n = (if n < 10 then [digitChar n] else showNat (n div 10) @ [digitChar (n mod 10)])"
  by pat_completeness auto
termination
  by (relation "measure (\<lambda>n. n)") auto

declare showNat.simps [simp del]

definition showInt :: "int \<Rightarrow> string" where
  "showInt i = (if i < 0 then CHR ''-'' # showNat (nat (- i)) else showNat (nat i))"

definition padStart :: "nat \<Rightarrow> char \<Rightarrow> string \<Rightarrow> string" where
  "padStart n c s = replicate (n - length s) c @ s"

subsection \<open>The local calendar fields of a JavaScript Date\<close>

text \<open>
  A \<^verbatim>\<open>Date\<close> is modelled by its local calendar fields: \<^verbatim>\<open>getFullYear()\<close>,
  \<^verbatim>\<open>getMonth()\<close> (0 to 11) and \<^verbatim>\<open>getDate()\<close> (1 to 31). The time of day
  is left out: \<^verbatim>\<open>setDate\<close> keeps it and \<^verbatim>\<open>formatDate\<close> never prints it.
  \<^verbatim>\<open>setDate(n)\<close> sets the day of the month; a value past the end of the month
  rolls over into the following months, a value below 1 into the preceding ones.
\<close>

record js_date =
  fullYear :: int
  monthIndex :: nat
  dayOfMonth :: nat

definition leapYear :: "int \<Rightarrow> bool" where
  "leapYear y = ((y mod 4 = 0 \<and> y mod 100 \<noteq> 0) \<or> y mod 400 = 0)"

definition daysInMonth :: "int \<Rightarrow> nat \<Rightarrow> nat" where
  "daysInMonth y m =
     (if m = 1 then (if leapYear y then 29 else 28)
      else if m = 3 \<or> m = 5 \<or> m = 8 \<or> m = 10 then 30
      else 31)"

function rollForward :: "int \<Rightarrow> nat \<Rightarrow> nat \<Rightarrow> js_date" where
  "rollForward y m n =
     (if daysInMonth y m < n
      then (if m = 11 then rollForward (y + 1) 0 (n - daysInMonth y m)
            else rollForward y (m + 1) (n - daysInMonth y m))
      else \<lparr>fullYear = y, monthIndex = m, dayOfMonth = n\<rparr>)"
  by pat_completeness auto
termination
proof (relation "measure (\<lambda>(y, m, n). n)")
  show "wf (measure (\<lambda>(y, m, n). n))" by simp
next
  fix y :: int and m n :: nat
  assume "daysInMonth y m < n" "m = 11"
  then show "((y + 1, 0, n - daysInMonth y m), (y, m, n)) \<in> measure (\<lambda>(y, m, n). n)"
    by (simp add: daysInMonth_def split: if_splits)
next
  fix y :: int and m n :: nat
  assume "daysInMonth y m < n" "m \<noteq> 11"
  then show "((y, m + 1, n - daysInMonth y m), (y, m, n)) \<in> measure (\<lambda>(y, m, n). n)"
    by (simp add: daysInMonth_def split: if_splits)
qed

function rollBack :: "int \<Rightarrow> nat \<Rightarrow> int \<Rightarrow> js_date" where
  "rollBack y m n =
     (if 1 \<le> n then \<lparr>fullYear = y, monthIndex = m, dayOfMonth = nat n\<rparr>
      else (if m = 0 then rollBack (y - 1) 11 (n + int (daysInMonth (y - 1) 11))
            else rollBack y (m - 1) (n + int (daysInMonth y (m - 1)))))"
  by pat_completeness auto
termination
proof (relation "measure (\<lambda>(y, m, n). nat (1 - n))")
  show "wf (measure (\<lambda>(y, m, n). nat (1 - n)))" by simp
next
  fix y :: int and m :: nat and n :: int
  assume "\<not> 1 \<le> n" "m = 0"
  then show "((y - 1, 11, n + int (daysInMonth (y - 1) 11)), (y, m, n))
      \<in> measure (\<lambda>(y, m, n). nat (1 - n))"
    by (simp add: daysInMonth_def)
next
  fix y :: int and m :: nat and n :: int
  assume "\<not> 1 \<le> n" "m \<noteq> 0"
  then show "((y, m - 1, n + int (daysInMonth y (m - 1))), (y, m, n))
      \<in> measure (\<lambda>(y, m, n). nat (1 - n))"
    by (simp add: daysInMonth_def)
qed

declare rollForward.simps [simp del]
declare rollBack.simps [simp del]

definition setDate :: "js_date \<Rightarrow> int \<Rightarrow> js_date" where
  "setDate d n =
     (if 1 \<le> n then rollForward (fullYear d) (monthIndex d) (nat n)
      else rollBack (fullYear d) (monthIndex d) n)"

text \<open>
  The calendar itself, independent of \<^verbatim>\<open>setDate\<close>: the day after a date, and the
  date \<open>k\<close> days after a date. A date is valid when its month is 0 to 11 and its day
  exists in that month.
\<close>

definition tomorrow :: "js_date \<Rightarrow> js_date" where
  "tomorrow d =
     (if dayOfMonth d < daysInMonth (fullYear d) (monthIndex d)
      then d\<lparr>dayOfMonth := dayOfMonth d + 1\<rparr>
      else if monthIndex d = 11
      then \<lparr>fullYear = fullYear d + 1, monthIndex = 0, dayOfMonth = 1\<rparr>
      else \<lparr>fullYear = fullYear d, monthIndex = monthIndex d + 1, dayOfMonth = 1\<rparr>)"

definition plusDays :: "nat \<Rightarrow> js_date \<Rightarrow> js_date" where
  "plusDays k d = (tomorrow ^^ k) d"

definition validDate :: "js_date \<Rightarrow> bool" where
  "validDate d = (monthIndex d < 12 \<and> 1 \<le> dayOfMonth d
     \<and> dayOfMonth d \<le> daysInMonth (fullYear d) (monthIndex d))"

subsection \<open>moduleManager.js\<close>

text \<open>
  \<^verbatim>\<open>formatDate\<close> prints month, day and year as \<^verbatim>\<open>MM/DD/YYYY\<close>: month and day
  padded to two digits, the year as \<^verbatim>\<open>getFullYear()\<close> prints.
\<close>

definition formatDate :: "js_date \<Rightarrow> string" where
  "formatDate d =
     padStart 2 CHR ''0'' (showNat (monthIndex d + 1)) @ ''/'' @
     padStart 2 CHR ''0'' (showNat (dayOfMonth d)) @ ''/'' @
     showInt (fullYear d)"

text \<open>
  A module block of \<^verbatim>\<open>#modulesContainer\<close>: the number in its id
  \<^verbatim>\<open>module<N>\<close>, whether it holds an element with id
  \<^verbatim>\<open>module<N>AssignmentsContainer\<close> (the blocks \<^verbatim>\<open>addModule\<close> builds do, the
  blocks \<^verbatim>\<open>populateModules\<close> builds do not), the values of its title and dates
  fields, and the values of its assignment fields in order.
\<close>

record module_block =
  mb_number :: nat
  mb_hasAssignmentsContainer :: bool
  mb_title :: string
  mb_dates :: string
  mb_assignments :: "string list"

datatype dom_error = TypeError

text \<open>
  \<^verbatim>\<open>addAssignment(moduleNumber)\<close> looks the assignments container up by id:
  \<^verbatim>\<open>getElementById\<close> returns the first element of the document with that id, and
  \<^verbatim>\<open>null\<close> when there is none, on which \<^verbatim>\<open>container.querySelectorAll\<close> throws.
  The new textarea is empty.
\<close>

fun addAssignment :: "nat \<Rightarrow> module_block list \<Rightarrow> module_block list option" where
  "addAssignment n [] = None"
| "addAssignment n (b # bs) =
     (if mb_hasAssignmentsContainer b \<and> mb_number b = n
      then Some (b\<lparr>mb_assignments := mb_assignments b @ ['''']\<rparr> # bs)
      else map_option ((#) b) (addAssignment n bs))"

definition newModuleBlock :: "nat \<Rightarrow> js_date \<Rightarrow> module_block" where
  "newModuleBlock moduleNumber startDate =
     (let moduleStartDate = setDate startDate (int (dayOfMonth startDate) + (int moduleNumber - 1) * 7);
          moduleEndDate = setDate moduleStartDate (int (dayOfMonth moduleStartDate) + 6)
      in \<lparr>mb_number = moduleNumber, mb_hasAssignmentsContainer = True, mb_title = '''',
          mb_dates = formatDate moduleStartDate @ '' - '' @ formatDate moduleEndDate,
          mb_assignments = []\<rparr>)"

text \<open>
  \<^verbatim>\<open>addModule\<close> appends the block to the container and then adds the first
  assignment; when that throws, the block stays appended.
\<close>

definition addModule :: "nat \<Rightarrow> js_date \<Rightarrow> module_block list \<Rightarrow> module_block list \<times> dom_error option" where
  "addModule moduleNumber startDate container =
     (let appended = container @ [newModuleBlock moduleNumber startDate]
      in case addAssignment moduleNumber appended of
           None \<Rightarrow> (appended, Some TypeError)
         | Some c \<Rightarrow> (c, None))"

text \<open>
  The module section of the page. The value of \<^verbatim>\<open>#moduleSelect\<close> is given as
  \<^verbatim>\<open>parseInt(value, 10)\<close> reads it (\<open>None\<close> is \<^verbatim>\<open>NaN\<close>: no option selected);
  the value of \<^verbatim>\<open>#datePicker\<close> as \<^verbatim>\<open>new Date(value)\<close> reads it: the empty
  string, a string that is no date, or a date.
\<close>

datatype date_value = EmptyValue | InvalidDate | ValidDate js_date

record module_page =
  moduleSelect :: "nat option"
  datePicker :: date_value
  modulesContainer :: "module_block list"

datatype handler_result = Completed | Alerted string | Threw dom_error

fun addModules :: "nat list \<Rightarrow> js_date \<Rightarrow> module_block list \<Rightarrow> module_block list \<times> dom_error option" where
  "addModules [] startDate container = (container, None)"
| "addModules (i # rest) startDate container =
     (case addModule i startDate container of
        (c, Some e) \<Rightarrow> (c, Some e)
      | (c, None) \<Rightarrow> addModules rest startDate c)"

definition generateModules :: "module_page \<Rightarrow> module_page \<times> handler_result" where
  "generateModules p =
     (case datePicker p of
        EmptyValue \<Rightarrow> (p, Alerted ''Please select a valid start date.'')
      | InvalidDate \<Rightarrow> (p, Alerted ''Invalid date selected.'')
      | ValidDate startDate \<Rightarrow>
          (let moduleCount = (case moduleSelect p of None \<Rightarrow> 0 | Some n \<Rightarrow> n)
           in case addModules [1..<Suc moduleCount] startDate [] of
                (c, None) \<Rightarrow> (p\<lparr>modulesContainer := c\<rparr>, Completed)
              | (c, Some e) \<Rightarrow> (p\<lparr>modulesContainer := c\<rparr>, Threw e)))"

text \<open>
  The block \<^verbatim>\<open>addModule\<close> leaves behind when its container lookup finds the new
  block itself: the new block with its first, empty assignment.
\<close>

definition rebuiltModule :: "js_date \<Rightarrow> nat \<Rightarrow> module_block" where
  "rebuiltModule startDate i = (newModuleBlock i startDate)\<lparr>mb_assignments := ['''']\<rparr>"

subsection \<open>The SLO cell (formUtils.js, assessmentManager.js)\<close>

text \<open>
  An argument as a template literal prints it: a number in decimal, a string as it is,
  a missing argument as \<^verbatim>\<open>undefined\<close>.
\<close>

datatype js_arg = JNum nat | JStr string | JUndefined

fun templateString :: "js_arg \<Rightarrow> string" where
  "templateString (JNum n) = showNat n"
| "templateString (JStr s) = s"
| "templateString JUndefined = ''undefined''"

text \<open>
  A cell \<^verbatim>\<open>td.slo-cell\<close> holds groups, each a \<^verbatim>\<open>div\<close> (with its class
  name) around one textarea and its Remove button, and the Add button.
\<close>

record slo_textarea =
  ta_name :: string
  ta_placeholder :: string
  ta_text :: string

datatype cell_child = OutcomeGroup string slo_textarea | AddOutcomeButton

fun textareas :: "cell_child list \<Rightarrow> slo_textarea list" where
  "textareas [] = []"
| "textareas (OutcomeGroup cls ta # cs) = ta # textareas cs"
| "textareas (AddOutcomeButton # cs) = textareas cs"

text \<open>
  \<^verbatim>\<open>sloCell.insertBefore(groupDiv, sloCell.querySelector('.addOutcomeButton'))\<close>:
  before the first Add button, at the end when the cell has none.
\<close>

fun insertBeforeAddButton :: "cell_child \<Rightarrow> cell_child list \<Rightarrow> cell_child list" where
  "insertBeforeAddButton g [] = [g]"
| "insertBeforeAddButton g (AddOutcomeButton # cs) = g # AddOutcomeButton # cs"
| "insertBeforeAddButton g (OutcomeGroup cls ta # cs) = OutcomeGroup cls ta # insertBeforeAddButton g cs"

definition addSLOInput :: "cell_child list \<Rightarrow> js_arg \<Rightarrow> js_arg \<Rightarrow> string \<Rightarrow> cell_child list" where
  "addSLOInput sloCell outcomeIndex sloIndex v =
     (let existingPlaceholders = map ta_placeholder (textareas sloCell);
          newPlaceholder = ''SLO '' @ templateString outcomeIndex @ ''.'' @ templateString sloIndex
      in if newPlaceholder \<in> set existingPlaceholders then sloCell
         else insertBeforeAddButton
                (OutcomeGroup ''slo-group''
                   \<lparr>ta_name = ''slo'' @ templateString outcomeIndex @ ''[]'',
                    ta_placeholder = newPlaceholder, ta_text = v\<rparr>)
                sloCell)"

subsection \<open>The weighting table (eventInit.js, formUtils.js)\<close>

text \<open>
  An input of the table is its \<^verbatim>\<open>name\<close> attribute and its current text. The
  section of the page: the rows of \<^verbatim>\<open>#weightingDetailsTable tbody\<close> (\<open>None\<close>
  when the selector finds nothing), each row the inputs it holds in document order, and
  the element \<^verbatim>\<open>#totalWeight\<close> with its text content and its
  \<^verbatim>\<open>style.color\<close> (\<open>None\<close> when absent).
\<close>

record form_input =
  input_name :: string
  input_text :: string

record weighting_section =
  weightingTbody :: "form_input list list option"
  totalWeightElement :: "(string \<times> string) option"

text \<open>
  \<^verbatim>\<open>parseFloat\<close> skips leading white space, reads an optional sign and the
  longest decimal literal that follows, and returns \<^verbatim>\<open>NaN\<close> when there is none.
  JavaScript numbers are doubles; the model keeps the whole numbers up to \<open>2^53\<close> in
  absolute value, on which the arithmetic of doubles is exact. \<open>None\<close> stands for
  every other number (a fraction, an exponent, \<^verbatim>\<open>Infinity\<close>, a larger number):
  the model says nothing about them.
\<close>

datatype js_number = NaN | Whole int

definition isSpace :: "char \<Rightarrow> bool" where
  "isSpace c = (c \<in> set [CHR '' '', CHR 0x09, CHR 0x0A, CHR 0x0B, CHR 0x0C, CHR 0x0D])"

definition isDigit :: "char \<Rightarrow> bool" where
  "isDigit c = (c \<in> set ''0123456789'')"

definition digitValue :: "char \<Rightarrow> nat" where
  "digitValue c = length (takeWhile (\<lambda>d. d \<noteq> c) ''0123456789'')"

definition wholeValue :: "string \<Rightarrow> nat" where
  "wholeValue ds = foldl (\<lambda>n c. 10 * n + digitValue c) 0 ds"

definition maxSafeWhole :: int where
  "maxSafeWhole = 9007199254740992"

definition parseFloat :: "string \<Rightarrow> js_number option" where
  "parseFloat s =
     (let t = dropWhile isSpace s;
          negative = (take 1 t = ''-'');
          u = (if take 1 t = ''-'' \<or> take 1 t = ''+'' then drop 1 t else t);
          ds = takeWhile isDigit u;
          rest = dropWhile isDigit u
      in if ds = [] then
           (if take 1 rest = ''.'' \<or> take 8 rest = ''Infinity'' then None else Some NaN)
         else if take 1 rest = ''.'' \<or> take 1 rest = ''e'' \<or> take 1 rest = ''E'' then None
         else if maxSafeWhole < int (wholeValue ds) then None
         else Some (Whole (if negative then - int (wholeValue ds) else int (wholeValue ds))))"

text \<open>
  The loop \<^verbatim>\<open>totalWeight += parseFloat(input.value) || 0\<close> over the texts of the
  selected inputs: \<^verbatim>\<open>NaN\<close> counts as 0.
\<close>

fun sumWeights :: "int \<Rightarrow> string list \<Rightarrow> int option" where
  "sumWeights totalWeight [] = Some totalWeight"
| "sumWeights totalWeight (v # vs) =
     (case parseFloat v of
        None \<Rightarrow> None
      | Some n \<Rightarrow>
          (let t = totalWeight + (case n of NaN \<Rightarrow> 0 | Whole w \<Rightarrow> w)
           in if \<bar>t\<bar> \<le> maxSafeWhole then sumWeights t vs else None))"

definition showTotal :: "int \<Rightarrow> string \<times> string" where
  "showTotal totalWeight = (showInt totalWeight @ ''%'', if 100 < totalWeight then ''red'' else '''')"

text \<open>
  \<^verbatim>\<open>updateTotalWeight\<close> of eventInit.js, the listener \<^verbatim>\<open>addWeightingRow\<close>
  and \<^verbatim>\<open>initializeWeightingTable\<close> attach to the weight field of a new row. It sums
  the inputs of the table body whose name is exactly \<^verbatim>\<open>weight\<close>.
\<close>

definition updateTotalWeight :: "weighting_section \<Rightarrow> weighting_section option" where
  "updateTotalWeight sec =
     (case weightingTbody sec of
        None \<Rightarrow> Some sec
      | Some rows \<Rightarrow>
          (case sumWeights 0 (map input_text (filter (\<lambda>i. input_name i = ''weight'') (concat rows))) of
             None \<Rightarrow> None
           | Some totalWeight \<Rightarrow>
               (case totalWeightElement sec of
                  None \<Rightarrow> Some sec
                | Some e \<Rightarrow> Some (sec\<lparr>totalWeightElement := Some (showTotal totalWeight)\<rparr>))))"

text \<open>
  \<^verbatim>\<open>updateTotalWeight\<close> of formUtils.js, the listener of the rows that
  \<^verbatim>\<open>updateWeightingDetailsAndAssignments\<close> and
  \<^verbatim>\<open>populateWeightingDetailsFromAssessments\<close> build. It sums every input whose
  name starts with \<^verbatim>\<open>weight\<close>; the inputs of the document are taken to be those of
  the table.
\<close>

definition updateTotalWeight_formUtils :: "weighting_section \<Rightarrow> weighting_section option" where
  "updateTotalWeight_formUtils sec =
     (let weightInputs = filter (\<lambda>i. take 6 (input_name i) = ''weight'')
            (case weightingTbody sec of None \<Rightarrow> [] | Some rows \<Rightarrow> concat rows)
      in case sumWeights 0 (map input_text weightInputs) of
           None \<Rightarrow> None
         | Some totalWeight \<Rightarrow>
             (case totalWeightElement sec of
                None \<Rightarrow> Some sec
              | Some e \<Rightarrow> Some (sec\<lparr>totalWeightElement := Some (showTotal totalWeight)\<rparr>)))"

text \<open>
  \<^verbatim>\<open>addWeightingRow\<close> (and the click listener of
  \<^verbatim>\<open>initializeWeightingTable\<close>, which has the same body) appends a row of two empty
  inputs named \<^verbatim>\<open>assessedElements[]\<close> and \<^verbatim>\<open>weight[]\<close>.
\<close>

definition addWeightingRow :: "weighting_section \<Rightarrow> weighting_section" where
  "addWeightingRow sec =
     (case weightingTbody sec of
        None \<Rightarrow> sec
      | Some rows \<Rightarrow>
          sec\<lparr>weightingTbody := Some (rows @
            [[\<lparr>input_name = ''assessedElements[]'', input_text = ''''\<rparr>,
              \<lparr>input_name = ''weight[]'', input_text = ''''\<rparr>]])\<rparr>)"

text \<open>The user types a text into input \<open>k\<close> of row \<open>r\<close>.\<close>

definition userTypes :: "nat \<Rightarrow> nat \<Rightarrow> string \<Rightarrow> weighting_section \<Rightarrow> weighting_section" where
  "userTypes r k v sec =
     (case weightingTbody sec of
        None \<Rightarrow> sec
      | Some rows \<Rightarrow>
          if r < length rows \<and> k < length (rows ! r)
          then sec\<lparr>weightingTbody := Some (rows[r := (rows ! r)[k := (rows ! r ! k)\<lparr>input_text := v\<rparr>]])\<rparr>
          else sec)"

subsection \<open>The form: controls and documents (formUtils.js, helper.js)\<close>

text \<open>
  A form control: its id, its \<^verbatim>\<open>data-policy-key\<close> attribute, what it is (a text
  input, a textarea, or a select with the values of its options) and its current
  \<^verbatim>\<open>value\<close>. Assigning to \<^verbatim>\<open>value\<close> follows the element: a text input drops
  line breaks, a textarea reads CR LF and CR back as LF, a select takes the value only
  when one of its options has it and is left with no selection, reading \<^verbatim>\<open>''\<close>,
  otherwise.
\<close>

datatype control_kind = TextInput | TextArea | SelectOne "string list"

record control =
  c_id :: "string option"
  c_policyKey :: "string option"
  c_kind :: control_kind
  c_text :: string

fun normalizeNewlines :: "string \<Rightarrow> string" where
  "normalizeNewlines [] = []"
| "normalizeNewlines [c] = [if c = CHR 0x0D then CHR 0x0A else c]"
| "normalizeNewlines (c # d # s) =
     (if c = CHR 0x0D \<and> d = CHR 0x0A then CHR 0x0A # normalizeNewlines s
      else if c = CHR 0x0D then CHR 0x0A # normalizeNewlines (d # s)
      else c # normalizeNewlines (d # s))"

definition assignValue :: "control_kind \<Rightarrow> string \<Rightarrow> string" where
  "assignValue k v =
     (case k of
        TextInput \<Rightarrow> filter (\<lambda>c. c \<noteq> CHR 0x0D \<and> c \<noteq> CHR 0x0A) v
      | TextArea \<Rightarrow> normalizeNewlines v
      | SelectOne opts \<Rightarrow> if v \<in> set opts then v else '''')"

text \<open>
  \<^verbatim>\<open>setElementValue\<close> and \<^verbatim>\<open>getValueById\<close> work on the first element with the
  id, as \<^verbatim>\<open>document.getElementById\<close> finds it, and do nothing (return
  \<^verbatim>\<open>''\<close>) when there is none.
\<close>

fun setElementValue :: "string \<Rightarrow> string \<Rightarrow> control list \<Rightarrow> control list" where
  "setElementValue i v [] = []"
| "setElementValue i v (c # cs) =
     (if c_id c = Some i then c\<lparr>c_text := assignValue (c_kind c) v\<rparr> # cs
      else c # setElementValue i v cs)"

definition getValueById :: "string \<Rightarrow> control list \<Rightarrow> string" where
  "getValueById i cs = (case find (\<lambda>c. c_id c = Some i) cs of None \<Rightarrow> '''' | Some c \<Rightarrow> c_text c)"

text \<open>
  \<^verbatim>\<open>populateFields(fields, data, defaults)\<close>: for every field the value
  \<^verbatim>\<open>data[field] ?? defaults[field] ?? ''\<close>. An object is read through its lookup:
  a property that is missing, \<^verbatim>\<open>undefined\<close> or \<^verbatim>\<open>null\<close> is \<open>None\<close>.
\<close>

definition nullish :: "string option \<Rightarrow> string option \<Rightarrow> string" where
  "nullish a b = (case a of Some v \<Rightarrow> v | None \<Rightarrow> (case b of Some d \<Rightarrow> d | None \<Rightarrow> ''''))"

definition populateFields ::
  "string list \<Rightarrow> (string \<rightharpoonup> string) \<Rightarrow> (string \<rightharpoonup> string) \<Rightarrow> control list \<Rightarrow> control list" where
  "populateFields fieldIds data defaults cs =
     foldl (\<lambda>cs field. setElementValue field (nullish (data field) (defaults field)) cs) cs fieldIds"

text \<open>
  The constant \<^verbatim>\<open>defaultPolicies\<close> of formUtils.js: for each of the programs BSN,
  MSN and DNP an object from policy key to boilerplate text, the keys in the order the
  source writes them. The texts are long and only copied around, so the table is an
  argument of the functions that read it.
\<close>

record policy_defaults =
  BSN :: "(string \<times> string) list"
  MSN :: "(string \<times> string) list"
  DNP :: "(string \<times> string) list"

definition programDefaults :: "policy_defaults \<Rightarrow> string \<Rightarrow> (string \<times> string) list option" where
  "programDefaults defaultPolicies program =
     (if program = ''BSN'' then Some (BSN defaultPolicies)
      else if program = ''MSN'' then Some (MSN defaultPolicies)
      else if program = ''DNP'' then Some (DNP defaultPolicies)
      else None)"

definition policyFields :: "string list" where
  "policyFields =
     [''generalPolicies'', ''courseMinimumGrade'', ''lateMakeupWork'', ''attendance'',
      ''incomplete'', ''withdrawal'', ''academicRights'', ''academicIntegrity'',
      ''netiquette'', ''diversityInclusion'', ''chosenName'', ''religiousObservance'',
      ''academicSupport'', ''disabilityDisclosure'', ''informationTechnologies'',
      ''counselingServices'', ''titleIX'', ''continuityInstruction'']"

text \<open>
  \<^verbatim>\<open>populatePolicies(syllabusData, program)\<close>, given
  \<^verbatim>\<open>syllabusData.policiesAndServices\<close> (\<open>None\<close> when missing).
\<close>

definition populatePolicies ::
  "policy_defaults \<Rightarrow> (string \<rightharpoonup> string) option \<Rightarrow> string \<Rightarrow> control list \<Rightarrow> control list" where
  "populatePolicies defaultPolicies policiesAndServices program cs =
     (let policies = (case policiesAndServices of None \<Rightarrow> Map.empty | Some m \<Rightarrow> m);
          defaultPoliciesForProgram =
            (case programDefaults defaultPolicies program of
               Some t \<Rightarrow> t | None \<Rightarrow> BSN defaultPolicies)
      in foldl (\<lambda>cs policy.
                  setElementValue policy
                    (nullish (policies policy) (map_of defaultPoliciesForProgram policy)) cs)
           cs policyFields)"

text \<open>
  A stored document, as \<^verbatim>\<open>populateForm\<close> reads it. A property that holds a list
  is missing or falsy, a truthy value that is no array, or an array.
  \<^verbatim>\<open>programOutcomes\<close> is only tested and used as a property key: \<open>None\<close> when
  missing or falsy, otherwise the key it converts to (\<^verbatim>\<open>''\<close> for the empty array).
  A property of an instructor that is missing or falsy reads as \<^verbatim>\<open>''\<close>.
\<close>

datatype 'a js_list = Absent | NotArray | Array "'a list"

record instructor =
  i_name :: string
  i_email :: string
  i_phone :: string
  i_office :: string
  i_officeHours :: string

record syllabus_data =
  sd_fields :: "string \<rightharpoonup> string"
  sd_policiesAndServices :: "(string \<rightharpoonup> string) option"
  sd_programOutcomes :: "string option"
  sd_instructors :: "instructor js_list"
  sd_learningOutcomes :: "string js_list"

text \<open>
  The document \<^verbatim>\<open>collectFormData\<close> assembles: the 17 string properties in the
  order of the object literal, the instructors, and the policies in the order their
  keys were first assigned. Its properties \<^verbatim>\<open>learningOutcomes\<close>,
  \<^verbatim>\<open>assessments\<close>, \<^verbatim>\<open>weightingDetails\<close>, \<^verbatim>\<open>gradingElements\<close>,
  \<^verbatim>\<open>modules\<close> and \<^verbatim>\<open>programOutcomes\<close> are always the empty array and
  \<^verbatim>\<open>slo\<close> the empty object: they carry nothing and are not fields of the record.
\<close>

record form_data =
  fd_scalars :: "(string \<times> string) list"
  fd_instructors :: "instructor list"
  fd_policiesAndServices :: "(string \<times> string) list"

definition generalFields :: "string list" where
  "generalFields =
     [''programSelect'', ''courseTitle'', ''courseNumber'', ''credits'', ''placement'',
      ''courseType'', ''courseDelivery'', ''courseLead'', ''leadEmail'', ''leadPhone'',
      ''leadOffice'', ''leadOfficeHours'', ''courseReqs'', ''courseDescription'',
      ''requiredMaterials'', ''instructionalMethods'', ''courseCommunications'']"

text \<open>
  The part of the page the populator and the assembler work on: the form controls in
  document order, the \<^verbatim>\<open>div\<close> children of \<^verbatim>\<open>#instructorsContainer\<close> (\<open>None\<close>
  when the container is missing), each with its named fields (name attribute and value)
  in document order, and whether the two outcome tables are there. The rows of the two
  tables are not part of the state: \<^verbatim>\<open>collectFormData\<close> reads nothing of them, and
  only their presence decides whether populating throws.
\<close>

datatype table_presence = NoTable | TableWithoutTbody | TableWithTbody

record form_dom =
  controls :: "control list"
  instructorsContainer :: "(string \<times> string) list list option"
  progOutcomesTbody :: bool
  outcomesAssessmentTable :: table_presence

text \<open>
  \<^verbatim>\<open>String.prototype.trim\<close> on ASCII strings.
\<close>

definition trim :: "string \<Rightarrow> string" where
  "trim s = rev (dropWhile isSpace (rev (dropWhile isSpace s)))"

text \<open>
  \<^verbatim>\<open>obj[key] = v\<close> on an object kept as the list of its properties. The name
  attribute of field \<^verbatim>\<open>property\<close> of instructor \<open>index\<close> (counted from 0) is
  \<^verbatim>\<open>instructors[index + 1][property]\<close>; the assembler reads the first field with
  that name in the block, trimmed, and \<^verbatim>\<open>''\<close> when there is none.
\<close>

fun putProperty :: "string \<Rightarrow> string \<Rightarrow> (string \<times> string) list \<Rightarrow> (string \<times> string) list" where
  "putProperty k v [] = [(k, v)]"
| "putProperty k v ((k', v') # ps) =
     (if k' = k then (k, v) # ps else (k', v') # putProperty k v ps)"

definition fieldByName :: "string \<Rightarrow> (string \<times> string) list \<Rightarrow> string" where
  "fieldByName n namedFields = (case map_of namedFields n of None \<Rightarrow> '''' | Some v \<Rightarrow> trim v)"

definition instructorFieldName :: "nat \<Rightarrow> string \<Rightarrow> string" where
  "instructorFieldName index property = ''instructors['' @ showNat (index + 1) @ '']['' @ property @ '']''"

definition collectInstructor :: "nat \<Rightarrow> (string \<times> string) list \<Rightarrow> instructor" where
  "collectInstructor index instructorDiv =
     \<lparr>i_name = fieldByName (instructorFieldName index ''name'') instructorDiv,
      i_email = fieldByName (instructorFieldName index ''email'') instructorDiv,
      i_phone = fieldByName (instructorFieldName index ''phone'') instructorDiv,
      i_office = fieldByName (instructorFieldName index ''office'') instructorDiv,
      i_officeHours = fieldByName (instructorFieldName index ''officeHours'') instructorDiv\<rparr>"

definition collectFormData :: "form_dom \<Rightarrow> form_data" where
  "collectFormData page =
     \<lparr>fd_scalars = map (\<lambda>k. (k, getValueById k (controls page))) generalFields,
      fd_instructors =
        (case instructorsContainer page of
           None \<Rightarrow> []
         | Some divs \<Rightarrow> map (\<lambda>(index, instructorDiv). collectInstructor index instructorDiv)
                         (zip [0..<length divs] divs)),
      fd_policiesAndServices =
        foldl (\<lambda>obj c. case c_policyKey c of
                          None \<Rightarrow> obj
                        | Some key \<Rightarrow> if key = '''' then obj else putProperty key (trim (c_text c)) obj)
          [] (controls page)\<rparr>"

subsection \<open>Populating the form (formUtils.js)\<close>

text \<open>
  \<^verbatim>\<open>populateInstructors\<close> builds each block by assigning a template string to
  \<^verbatim>\<open>innerHTML\<close>, with the instructor's strings pasted in unescaped: the four inputs
  as \<^verbatim>\<open>value="..."\<close>, the office hours as the content of the textarea. What the
  fields then hold is what the HTML parser reads. The model covers this fragment of
  HTML: printable ASCII text; the character references \<^verbatim>\<open>&amp;\<close>, \<^verbatim>\<open>&lt;\<close>,
  \<^verbatim>\<open>&gt;\<close> and \<^verbatim>\<open>&quot;\<close>; a double-quoted attribute value ends at the first
  double quote, and what follows it is read as attribute names as long as it holds no
  \<^verbatim>\<open>=\<close>, \<^verbatim>\<open><\<close> or \<^verbatim>\<open>>\<close>; the content of a textarea is text as long as it holds
  no \<^verbatim>\<open></\<close>. \<open>None\<close> stands for every string outside the fragment: the model
  says nothing about them.
\<close>

definition printable :: "char \<Rightarrow> bool" where
  "printable c = (32 \<le> (of_char c :: nat) \<and> (of_char c :: nat) \<le> 126)"

fun decodeReferences :: "string \<Rightarrow> string option" where
  "decodeReferences [] = Some []"
| "decodeReferences (c # s) =
     (if c = CHR ''&'' then
        (if take 4 s = ''amp;'' then map_option ((#) CHR ''&'') (decodeReferences (drop 4 s))
         else if take 3 s = ''lt;'' then map_option ((#) CHR ''<'') (decodeReferences (drop 3 s))
         else if take 3 s = ''gt;'' then map_option ((#) CHR ''>'') (decodeReferences (drop 3 s))
         else if take 5 s = ''quot;'' then map_option ((#) CHR 0x22) (decodeReferences (drop 5 s))
         else None)
      else map_option ((#) c) (decodeReferences s))"

definition attributeValue :: "string \<Rightarrow> string option" where
  "attributeValue s =
     (if \<not> list_all printable s then None
      else (let v = takeWhile (\<lambda>c. c \<noteq> CHR 0x22) s;
                rest = drop (length v + 1) s
            in if list_ex (\<lambda>c. c = CHR ''='' \<or> c = CHR ''<'' \<or> c = CHR ''>'') rest then None
               else decodeReferences v))"

fun hasEndTagOpen :: "string \<Rightarrow> bool" where
  "hasEndTagOpen (c # d # s) = ((c = CHR ''<'' \<and> d = CHR ''/'') \<or> hasEndTagOpen (d # s))"
| "hasEndTagOpen s = False"

definition textareaContent :: "string \<Rightarrow> string option" where
  "textareaContent s =
     (if \<not> list_all printable s \<or> hasEndTagOpen s then None else decodeReferences s)"

text \<open>
  The block of instructor \<open>index\<close> (counted from 0): its five named fields. An input of
  type \<^verbatim>\<open>email\<close> strips white space around its value.
\<close>

definition instructorBlock :: "nat \<Rightarrow> instructor \<Rightarrow> (string \<times> string) list option" where
  "instructorBlock index instructor =
     (case (attributeValue (i_name instructor), attributeValue (i_email instructor),
            attributeValue (i_phone instructor), attributeValue (i_office instructor),
            textareaContent (i_officeHours instructor)) of
        (Some n, Some e, Some p, Some off, Some h) \<Rightarrow>
          Some [(instructorFieldName index ''name'', n),
                (instructorFieldName index ''email'', trim e),
                (instructorFieldName index ''phone'', p),
                (instructorFieldName index ''office'', off),
                (instructorFieldName index ''officeHours'', h)]
      | _ \<Rightarrow> None)"

text \<open>
  \<^verbatim>\<open>populateInstructors\<close>: nothing without the container; otherwise the container is
  emptied and, for an array, refilled with one block per instructor. The rich-text
  editor set up on the office hours is not modelled: the textarea is the field's value
  of record.
\<close>

definition populateInstructors :: "instructor js_list \<Rightarrow> form_dom \<Rightarrow> form_dom option" where
  "populateInstructors instructors page =
     (case instructorsContainer page of
        None \<Rightarrow> Some page
      | Some old \<Rightarrow>
          (case instructors of
             Array xs \<Rightarrow>
               map_option (\<lambda>divs. page\<lparr>instructorsContainer := Some divs\<rparr>)
                 (those (map (\<lambda>(index, x). instructorBlock index x) (zip [0..<length xs] xs)))
           | _ \<Rightarrow> Some (page\<lparr>instructorsContainer := Some []\<rparr>)))"

text \<open>
  The three functions that fill the outcome tables change nothing the model keeps.
  \<^verbatim>\<open>updateLearningOutcomesAndAssessments\<close> and \<^verbatim>\<open>populateLearningOutcomes\<close>
  throw when \<^verbatim>\<open>#outcomesAssessmentTable\<close> or its body is missing;
  \<^verbatim>\<open>populateProgramAndSLOs\<close> returns early without \<^verbatim>\<open>#progStudentOutcomesTable
  tbody\<close> and ends with \<^verbatim>\<open>updateLearningOutcomesAndAssessments()\<close> otherwise.
\<close>

definition updateLearningOutcomesAndAssessments :: "form_dom \<Rightarrow> dom_error option" where
  "updateLearningOutcomesAndAssessments page =
     (if outcomesAssessmentTable page = TableWithTbody then None else Some TypeError)"

definition populateLearningOutcomes :: "form_dom \<Rightarrow> dom_error option" where
  "populateLearningOutcomes page =
     (if outcomesAssessmentTable page = TableWithTbody then None else Some TypeError)"

definition populateProgramAndSLOs :: "form_dom \<Rightarrow> dom_error option" where
  "populateProgramAndSLOs page =
     (if \<not> progOutcomesTbody page then None else updateLearningOutcomesAndAssessments page)"

text \<open>
  \<^verbatim>\<open>populateForm\<close>. The policy fields are the keys of \<^verbatim>\<open>defaultPolicies.BSN\<close>,
  and \<^verbatim>\<open>defaultPolicies.BSN\<close> is the table of defaults. The weighting details are
  never populated: \<^verbatim>\<open>populateWeightingDetails\<close> is not a function of the module.
  The result is the page after a normal return, the page as it stands when a step
  throws, or nothing when the HTML of an instructor is outside the fragment above.
\<close>

datatype populate_result = Populated form_dom | Thrown form_dom dom_error | OutsideModel

definition populateForm :: "policy_defaults \<Rightarrow> syllabus_data \<Rightarrow> form_dom \<Rightarrow> populate_result" where
  "populateForm defaultPolicies syllabusData page =
     (let cs1 = populateFields generalFields (sd_fields syllabusData) Map.empty (controls page);
          policyFields = map fst (BSN defaultPolicies);
          policies = (case sd_policiesAndServices syllabusData of None \<Rightarrow> Map.empty | Some m \<Rightarrow> m);
          cs2 = populateFields policyFields policies (map_of (BSN defaultPolicies)) cs1;
          page2 = page\<lparr>controls := cs2\<rparr>
      in case (if sd_programOutcomes syllabusData = None then None else populateProgramAndSLOs page2) of
           Some e \<Rightarrow> Thrown page2 e
         | None \<Rightarrow>
             (case (if sd_instructors syllabusData = Absent then Some page2
                    else populateInstructors (sd_instructors syllabusData) page2) of
                None \<Rightarrow> OutsideModel
              | Some page3 \<Rightarrow>
                  (case (if sd_learningOutcomes syllabusData = Absent then None
                         else populateLearningOutcomes page3) of
                     Some e \<Rightarrow> Thrown page3 e
                   | None \<Rightarrow> Populated page3)))"

definition pageAfter :: "populate_result \<Rightarrow> form_dom option" where
  "pageAfter r = (case r of Populated p \<Rightarrow> Some p | Thrown p e \<Rightarrow> Some p | OutsideModel \<Rightarrow> None)"

text \<open>
  An assembled document read as a stored document, as when it is saved and loaded
  again: every property is present, \<^verbatim>\<open>programOutcomes\<close> and
  \<^verbatim>\<open>learningOutcomes\<close> are the empty array.
\<close>

definition asSyllabusData :: "form_data \<Rightarrow> syllabus_data" where
  "asSyllabusData formData =
     \<lparr>sd_fields = map_of (fd_scalars formData),
      sd_policiesAndServices = Some (map_of (fd_policiesAndServices formData)),
      sd_programOutcomes = Some '''',
      sd_instructors = Array (fd_instructors formData),
      sd_learningOutcomes = Array []\<rparr>"

text \<open>
  Populate, assemble, populate from the assembled document, assemble again: the two
  assembled documents.
\<close>

definition roundTrip :: "policy_defaults \<Rightarrow> syllabus_data \<Rightarrow> form_dom \<Rightarrow> (form_data \<times> form_data) option" where
  "roundTrip defaultPolicies syllabusData page =
     (case pageAfter (populateForm defaultPolicies syllabusData page) of
        None \<Rightarrow> None
      | Some page1 \<Rightarrow>
          (case pageAfter (populateForm defaultPolicies (asSyllabusData (collectFormData page1)) page1) of
             None \<Rightarrow> None
           | Some page2 \<Rightarrow> Some (collectFormData page1, collectFormData page2)))"

subsection \<open>Saving (formSubmit.js)\<close>

text \<open>
  \<^verbatim>\<open>saveFormData\<close> is an async function: it runs up to \<^verbatim>\<open>await fetch(...)\<close>, and
  goes on when the request has an outcome. Other saves can start in between, so the two
  parts are two functions on the state of the session: the two items of
  \<^verbatim>\<open>sessionStorage\<close>, the value of the hidden input \<^verbatim>\<open>#syllabusId\<close> (\<open>None\<close>: no
  such element), the module variable \<^verbatim>\<open>previousFormData\<close>, the saves waiting at
  their \<^verbatim>\<open>await\<close>, and the log of the requests made so far. The status line and the
  console are not part of the state.
\<close>

datatype http_verb = POST | PUT

record request =
  req_method :: http_verb
  req_url :: string
  req_userId :: string
  req_formData :: form_data
  req_lastEdited :: string
  req_autosave :: bool
  req_syllabusId :: "string option"

text \<open>
  What \<^verbatim>\<open>response.json()\<close> gives: a rejection, \<^verbatim>\<open>null\<close>, or a value with its
  \<^verbatim>\<open>syllabusId\<close> property (\<open>None\<close>: the property is missing), a string when present.
\<close>

datatype response_body = NotJson | JsonNull | JsonObject "string option"

record http_response =
  resp_status :: nat
  resp_body :: response_body

datatype fetch_outcome = NetworkError | Response http_response

text \<open>A save waiting at its \<^verbatim>\<open>await\<close>, with the local variables it reads afterwards.\<close>

record pending_save =
  ps_isAutosave :: bool
  ps_syllabusId :: "string option"
  ps_request :: request

record sync_state =
  ss_userId :: "string option"
  ss_syllabusId :: "string option"
  el_syllabusId :: "string option"
  previousFormData :: "form_data option"
  inFlight :: "pending_save list"
  sent :: "request list"

definition truthy :: "string option \<Rightarrow> bool" where
  "truthy v = (v \<noteq> None \<and> v \<noteq> Some '''')"

text \<open>
  \<^verbatim>\<open>saveFormData\<close> up to the \<^verbatim>\<open>await\<close>. \<open>formData\<close> is the document
  \<^verbatim>\<open>prepareFormDataForSubmission()\<close> returns and \<open>now\<close> the time stamp. Two
  documents have the same \<^verbatim>\<open>JSON.stringify\<close> when they are equal. Every \<^verbatim>\<open>throw\<close> is
  caught by the function's own \<^verbatim>\<open>catch\<close>, which changes nothing in the state. A
  manual save fails its validation when a scalar field is the empty string (the other
  properties are arrays and objects, never \<^verbatim>\<open>''\<close> or \<^verbatim>\<open>null\<close>).
\<close>

definition saveFormData :: "bool \<Rightarrow> form_data \<Rightarrow> string \<Rightarrow> sync_state \<Rightarrow> sync_state" where
  "saveFormData isAutosave formData now st =
     (case ss_userId st of
        None \<Rightarrow> st
      | Some userId \<Rightarrow>
          if userId = '''' then st
          else
            let syllabusId = (if truthy (ss_syllabusId st) then ss_syllabusId st else el_syllabusId st) in
            if isAutosave \<and> previousFormData st = Some formData then st
            else
              let st1 = st\<lparr>previousFormData := Some formData\<rparr> in
              if \<not> isAutosave \<and> list_ex (\<lambda>(key, v). v = '''') (fd_scalars formData) then st1
              else
                let request =
                      \<lparr>req_method = (if truthy syllabusId then PUT else POST),
                       req_url = (case syllabusId of
                                    None \<Rightarrow> ''/syllabus''
                                  | Some i \<Rightarrow> if i = '''' then ''/syllabus'' else ''/syllabus/update/'' @ i),
                       req_userId = userId,
                       req_formData = formData,
                       req_lastEdited = now,
                       req_autosave = isAutosave,
                       req_syllabusId = (if truthy syllabusId then syllabusId else None)\<rparr>
                in st1\<lparr>inFlight := inFlight st1 @
                          [\<lparr>ps_isAutosave = isAutosave, ps_syllabusId = syllabusId, ps_request = request\<rparr>],
                        sent := sent st1 @ [request]\<rparr>)"

text \<open>
  \<^verbatim>\<open>saveFormData\<close> after the \<^verbatim>\<open>await\<close>. A rejected \<^verbatim>\<open>fetch\<close> goes to the
  \<^verbatim>\<open>catch\<close>. On a response that is not ok the body is read first, so that a body
  that is not JSON goes to the \<^verbatim>\<open>catch\<close> before the status is looked at; a 404
  removes the stored id. On an ok response the returned id is stored when the save
  started without one.
\<close>

definition responseOk :: "http_response \<Rightarrow> bool" where
  "responseOk response = (200 \<le> resp_status response \<and> resp_status response \<le> 299)"

definition saveFormData_resumed :: "pending_save \<Rightarrow> fetch_outcome \<Rightarrow> sync_state \<Rightarrow> sync_state" where
  "saveFormData_resumed p outcome st =
     (case outcome of
        NetworkError \<Rightarrow> st
      | Response response \<Rightarrow>
          if \<not> responseOk response then
            (case resp_body response of
               NotJson \<Rightarrow> st
             | _ \<Rightarrow> if resp_status response = 404 then st\<lparr>ss_syllabusId := None\<rparr> else st)
          else
            (case resp_body response of
               JsonObject returned \<Rightarrow>
                 if \<not> truthy (ps_syllabusId p) \<and> truthy returned
                 then st\<lparr>ss_syllabusId := returned\<rparr> else st
             | _ \<Rightarrow> st))"

text \<open>
  A session is a sequence of events: a save starts (a click on Save, or a tick of the
  timer \<^verbatim>\<open>startAutosave\<close> sets, which calls \<^verbatim>\<open>saveFormData(true)\<close>), with the
  document the page then holds; or the request of the waiting save number \<open>i\<close> gets its
  outcome and that save runs to its end.
\<close>

datatype event = Save bool form_data string | Deliver nat fetch_outcome

fun step :: "sync_state \<Rightarrow> event \<Rightarrow> sync_state" where
  "step st (Save isAutosave formData now) = saveFormData isAutosave formData now st"
| "step st (Deliver i outcome) =
     (if i < length (inFlight st)
      then saveFormData_resumed (inFlight st ! i) outcome
             (st\<lparr>inFlight := take i (inFlight st) @ drop (Suc i) (inFlight st)\<rparr>)
      else st)"

definition run :: "sync_state \<Rightarrow> event list \<Rightarrow> sync_state" where
  "run = foldl step"

subsection \<open>Example data\<close>

text \<open>
  The table \<^verbatim>\<open>defaultPolicies\<close> cut down to its first key,
  \<^verbatim>\<open>generalPolicies\<close>, with the three texts of the source; a page with a program
  select, a title input, the general-policies textarea, an empty instructors container
  and both outcome tables; and a stored MSN document with one instructor and no stored
  policies.
\<close>

definition generalPoliciesDefaults :: policy_defaults where
  "generalPoliciesDefaults =
     \<lparr>BSN = [(''generalPolicies'', ''This course will abide by all Jefferson College of Nursing and Thomas Jefferson University policies. Students are responsible for knowing and adhering to University policies (https://www.jefferson.edu/academicpolicies) and policies as outlined in the Jefferson College of Nursing Student Handbook & Course Catalog.'')],
      MSN = [(''generalPolicies'', ''MSN This course will abide by all Jefferson College of Nursing and Thomas Jefferson University policies. Students are responsible for knowing and adhering to University policies (https://www.jefferson.edu/academicpolicies) and policies as outlined in the Jefferson College of Nursing Student Handbook & Course Catalog.'')],
      DNP = [(''generalPolicies'', ''DNP This course will abide by all Jefferson College of Nursing and Thomas Jefferson University policies. Students are responsible for knowing and adhering to University policies (https://www.jefferson.edu/academicpolicies) and policies as outlined in the Jefferson College of Nursing Student Handbook & Course Catalog.'')]\<rparr>"

definition examplePage :: form_dom where
  "examplePage =
     \<lparr>controls =
        [\<lparr>c_id = Some ''programSelect'', c_policyKey = None,
          c_kind = SelectOne ['''', ''BSN'', ''MSN'', ''DNP''], c_text = ''''\<rparr>,
         \<lparr>c_id = Some ''courseTitle'', c_policyKey = None, c_kind = TextInput, c_text = ''''\<rparr>,
         \<lparr>c_id = Some ''generalPolicies'', c_policyKey = Some ''generalPolicies'',
          c_kind = TextArea, c_text = ''''\<rparr>],
      instructorsContainer = Some [],
      progOutcomesTbody = True,
      outcomesAssessmentTable = TableWithTbody\<rparr>"

definition exampleInstructor :: instructor where
  "exampleInstructor =
     \<lparr>i_name = ''Dr. &quot;Bob&quot; Lee'', i_email = ''bob.lee@jefferson.edu'',
      i_phone = ''215-555-0100'', i_office = ''Room 12'', i_officeHours = ''Mon 9-10''\<rparr>"

definition exampleDocument :: syllabus_data where
  "exampleDocument =
     \<lparr>sd_fields = [''programSelect'' \<mapsto> ''MSN'', ''courseTitle'' \<mapsto> ''Nursing 101''],
      sd_policiesAndServices = None,
      sd_programOutcomes = None,
      sd_instructors = Array [exampleInstructor],
      sd_learningOutcomes = Absent\<rparr>"

text \<open>
  A session that has a user and no syllabus id, the same session on a page opened on
  syllabus \<^verbatim>\<open>abc\<close> (\<^verbatim>\<open>initializeForm\<close> and \<^verbatim>\<open>loadSyllabusData\<close> put the id of
  the URL into the hidden input and into \<^verbatim>\<open>sessionStorage\<close>), and an assembled
  document with every scalar field filled in.
\<close>

definition newSession :: sync_state where
  "newSession =
     \<lparr>ss_userId = Some ''u1'', ss_syllabusId = None, el_syllabusId = Some '''',
      previousFormData = None, inFlight = [], sent = []\<rparr>"

definition openedSession :: sync_state where
  "openedSession = newSession\<lparr>ss_syllabusId := Some ''abc'', el_syllabusId := Some ''abc''\<rparr>"

definition filledFormData :: form_data where
  "filledFormData =
     \<lparr>fd_scalars = map (\<lambda>k. (k, if k = ''programSelect'' then ''MSN'' else ''Nursing 101'')) generalFields,
      fd_instructors = [],
      fd_policiesAndServices = []\<rparr>"

section \<open>Properties\<close>

subsection \<open>Printing numbers\<close>

lemma showNat_digit: "n < 10 \<Longrightarrow> showNat n = [digitChar n]"
  by (subst showNat.simps) simp

lemma showNat_more: "10 \<le> n \<Longrightarrow> showNat n = showNat (n div 10) @ [digitChar (n mod 10)]"
  by (subst showNat.simps) simp

lemmas show_simps = showNat_digit showNat_more showInt_def digitChar_def padStart_def

subsection \<open>Dates\<close>

lemma daysInMonth_ge: "28 \<le> daysInMonth y m"
  by (simp add: daysInMonth_def)

lemma rollForward_over:
  "daysInMonth y m < n \<Longrightarrow>
   rollForward y m n =
     (if m = 11 then rollForward (y + 1) 0 (n - daysInMonth y m)
      else rollForward y (m + 1) (n - daysInMonth y m))"
  by (subst rollForward.simps) simp

lemma rollForward_within:
  "n \<le> daysInMonth y m \<Longrightarrow>
   rollForward y m n = \<lparr>fullYear = y, monthIndex = m, dayOfMonth = n\<rparr>"
  by (subst rollForward.simps) simp

lemma rollForward_first:
  "rollForward y m (Suc 0) = \<lparr>fullYear = y, monthIndex = m, dayOfMonth = Suc 0\<rparr>"
proof -
  have "Suc 0 \<le> daysInMonth y m" using daysInMonth_ge [of y m] by simp
  from rollForward_within [OF this] show ?thesis .
qed

lemma rollForward_Suc:
  "1 \<le> n \<Longrightarrow> rollForward y m (Suc n) = tomorrow (rollForward y m n)"
proof (induction y m n rule: rollForward.induct)
  case (1 y m n)
  show ?case
  proof (cases "daysInMonth y m < n")
    case over: True
    then have big: "daysInMonth y m < Suc n" by simp
    have pos: "1 \<le> n - daysInMonth y m" using over by simp
    have suc: "Suc n - daysInMonth y m = Suc (n - daysInMonth y m)" using over by simp
    show ?thesis
    proof (cases "m = 11")
      case True
      have "rollForward y m (Suc n) = rollForward (y + 1) 0 (Suc (n - daysInMonth y m))"
        using rollForward_over [OF big] True suc by simp
      also have "\<dots> = tomorrow (rollForward (y + 1) 0 (n - daysInMonth y m))"
        using "1.IH"(1) [OF over True pos] .
      also have "rollForward (y + 1) 0 (n - daysInMonth y m) = rollForward y m n"
        using rollForward_over [OF over] True by simp
      finally show ?thesis .
    next
      case False
      have "rollForward y m (Suc n) = rollForward y (m + 1) (Suc (n - daysInMonth y m))"
        using rollForward_over [OF big] False suc by simp
      also have "\<dots> = tomorrow (rollForward y (m + 1) (n - daysInMonth y m))"
        using "1.IH"(2) [OF over False pos] .
      also have "rollForward y (m + 1) (n - daysInMonth y m) = rollForward y m n"
        using rollForward_over [OF over] False by simp
      finally show ?thesis .
    qed
  next
    case False
    then have le: "n \<le> daysInMonth y m" by simp
    note here = rollForward_within [OF le]
    show ?thesis
    proof (cases "n < daysInMonth y m")
      case True
      then have "Suc n \<le> daysInMonth y m" by simp
      from rollForward_within [OF this] here True show ?thesis
        by (simp add: tomorrow_def)
    next
      case False
      with le have eq: "n = daysInMonth y m" by simp
      have big: "daysInMonth y m < Suc n" using eq by simp
      have d1: "Suc n - daysInMonth y m = Suc 0" using eq by simp
      have "rollForward y m (Suc n) =
          (if m = 11 then rollForward (y + 1) 0 (Suc 0) else rollForward y (m + 1) (Suc 0))"
        using rollForward_over [OF big] unfolding d1 .
      then have "rollForward y m (Suc n) =
          (if m = 11 then \<lparr>fullYear = y + 1, monthIndex = 0, dayOfMonth = Suc 0\<rparr>
           else \<lparr>fullYear = y, monthIndex = m + 1, dayOfMonth = Suc 0\<rparr>)"
        by (simp only: rollForward_first)
      with here eq show ?thesis by (simp add: tomorrow_def)
    qed
  qed
qed

lemma validDate_tomorrow: "validDate d \<Longrightarrow> validDate (tomorrow d)"
  using daysInMonth_ge [of "fullYear d + 1" 0] daysInMonth_ge [of "fullYear d" "monthIndex d + 1"]
  by (auto simp: validDate_def tomorrow_def)

lemma validDate_plusDays: "validDate d \<Longrightarrow> validDate (plusDays k d)"
  by (induction k) (simp_all add: plusDays_def validDate_tomorrow)

lemma plusDays_plusDays: "plusDays j (plusDays k d) = plusDays (k + j) d"
  by (simp add: plusDays_def funpow_add add.commute)

text \<open>
  Setting the day of the month to the current day plus \<open>k\<close> moves a valid date forward
  by \<open>k\<close> days.
\<close>

lemma setDate_plusDays:
  "validDate d \<Longrightarrow> setDate d (int (dayOfMonth d) + int k) = plusDays k d"
proof (induction k)
  case 0
  then show ?case
    by (simp add: setDate_def plusDays_def validDate_def rollForward_within)
next
  case (Suc k)
  then have "1 \<le> dayOfMonth d + k" by (simp add: validDate_def)
  from rollForward_Suc [OF this] Suc show ?case
    by (simp add: setDate_def plusDays_def validDate_def nat_add_distrib)
qed

subsection \<open>The module manager\<close>

lemma addAssignment_keeps:
  "addAssignment n bs = Some c \<Longrightarrow>
   length c = length bs \<and> map mb_dates c = map mb_dates bs \<and> map mb_title c = map mb_title bs
     \<and> map mb_number c = map mb_number bs"
  by (induction bs arbitrary: c) (auto split: if_splits)

lemma addAssignment_fresh:
  "\<forall>b \<in> set bs. mb_number b \<noteq> n \<Longrightarrow> mb_hasAssignmentsContainer b' \<Longrightarrow> mb_number b' = n \<Longrightarrow>
   addAssignment n (bs @ [b']) = Some (bs @ [b'\<lparr>mb_assignments := mb_assignments b' @ ['''']\<rparr>])"
  by (induction bs) auto

lemma newModuleBlock_dates:
  assumes "validDate startDate" "1 \<le> moduleNumber"
  shows "mb_dates (newModuleBlock moduleNumber startDate) =
     formatDate (plusDays (7 * (moduleNumber - 1)) startDate) @ '' - '' @
     formatDate (plusDays (7 * (moduleNumber - 1) + 6) startDate)"
proof -
  have k: "(int moduleNumber - 1) * 7 = int (7 * (moduleNumber - 1))"
    using assms(2) by (simp add: of_nat_diff)
  have s: "setDate startDate (int (dayOfMonth startDate) + (int moduleNumber - 1) * 7)
      = plusDays (7 * (moduleNumber - 1)) startDate"
    unfolding k using setDate_plusDays [OF assms(1)] .
  have v: "validDate (plusDays (7 * (moduleNumber - 1)) startDate)"
    using validDate_plusDays [OF assms(1)] .
  have e: "setDate (plusDays (7 * (moduleNumber - 1)) startDate)
        (int (dayOfMonth (plusDays (7 * (moduleNumber - 1)) startDate)) + 6)
      = plusDays (7 * (moduleNumber - 1) + 6) startDate"
    using setDate_plusDays [OF v, of 6] by (simp add: plusDays_plusDays)
  show ?thesis
    unfolding newModuleBlock_def Let_def s e by simp
qed

text \<open>
  The block \<^verbatim>\<open>addModule\<close> creates is the one it appends, at the position after
  the blocks that were there; adding the first assignment leaves every dates field alone.
\<close>

lemma addModule_created_dates:
  "mb_dates (fst (addModule n d c) ! length c) = mb_dates (newModuleBlock n d)"
proof (cases "addAssignment n (c @ [newModuleBlock n d])")
  case None
  then show ?thesis by (simp add: addModule_def)
next
  case (Some c')
  from addAssignment_keeps [OF Some]
  have "map mb_dates c' ! length c = map mb_dates (c @ [newModuleBlock n d]) ! length c"
    by simp
  moreover have "length c < length c'" using addAssignment_keeps [OF Some] by simp
  ultimately show ?thesis using Some by (simp add: addModule_def nth_append)
qed

text \<open>
  Claim C6. For a start date \<open>S\<close> and a module number \<open>N\<close> of at least 1 (so for
  every \<open>N\<close> from 1 to 20), the dates field of the module \<^verbatim>\<open>addModule\<close> creates
  reads: the date \<open>7 * (N - 1)\<close> days after \<open>S\<close>, a dash, the date
  \<open>7 * (N - 1) + 6\<close> days after \<open>S\<close>, both printed by \<^verbatim>\<open>formatDate\<close> as
  \<^verbatim>\<open>MM/DD/YYYY\<close>. \<open>S\<close> is the local calendar date of the \<^verbatim>\<open>Date\<close> passed
  to \<^verbatim>\<open>addModule\<close>.
\<close>

theorem addModule_date_range:
  assumes "validDate startDate" and "1 \<le> moduleNumber"
  shows "mb_dates (fst (addModule moduleNumber startDate container) ! length container) =
     formatDate (plusDays (7 * (moduleNumber - 1)) startDate) @ '' - '' @
     formatDate (plusDays (7 * (moduleNumber - 1) + 6) startDate)"
  using newModuleBlock_dates [OF assms] by (simp add: addModule_created_dates)

text \<open>The spec's example: start date 2024-01-01, module 3.\<close>

theorem addModule_date_range_witness:
  "validDate \<lparr>fullYear = 2024, monthIndex = 0, dayOfMonth = 1\<rparr> \<and> (1::nat) \<le> 3 \<and>
   mb_dates (fst (addModule 3 \<lparr>fullYear = 2024, monthIndex = 0, dayOfMonth = 1\<rparr> [])
       ! length ([] :: module_block list))
     = ''01/15/2024 - 01/21/2024''"
proof -
  let ?S = "\<lparr>fullYear = 2024, monthIndex = 0, dayOfMonth = 1\<rparr>"
  have v: "validDate ?S" by (simp add: validDate_def daysInMonth_def)
  have a: "plusDays 14 ?S = \<lparr>fullYear = 2024, monthIndex = 0, dayOfMonth = 15\<rparr>"
    by (simp add: plusDays_def eval_nat_numeral tomorrow_def daysInMonth_def leapYear_def)
  have b: "plusDays 20 ?S = \<lparr>fullYear = 2024, monthIndex = 0, dayOfMonth = 21\<rparr>"
    by (simp add: plusDays_def eval_nat_numeral tomorrow_def daysInMonth_def leapYear_def)
  have "mb_dates (fst (addModule 3 ?S []) ! length ([] :: module_block list)) =
      formatDate (plusDays 14 ?S) @ '' - '' @ formatDate (plusDays 20 ?S)"
    using addModule_date_range [of ?S 3 "[]"] v by simp
  then show ?thesis using v unfolding a b by (simp add: show_simps formatDate_def)
qed

text \<open>
  Month and day are always two characters wide in what \<^verbatim>\<open>formatDate\<close> prints.
\<close>

lemma showNat_length_2: "n < 100 \<Longrightarrow> length (padStart 2 CHR ''0'' (showNat n)) = 2"
proof (cases "n < 10")
  case True
  then show ?thesis by (simp add: showNat_digit padStart_def)
next
  case False
  moreover assume "n < 100"
  ultimately have "10 \<le> n" "n div 10 < 10" by simp_all
  then show ?thesis by (simp add: showNat_more showNat_digit padStart_def)
qed

lemma formatDate_shape:
  assumes "validDate d"
  shows "\<exists>mm dd. formatDate d = mm @ ''/'' @ dd @ ''/'' @ showInt (fullYear d)
           \<and> length mm = 2 \<and> length dd = 2"
proof -
  have "monthIndex d + 1 < 100" using assms by (simp add: validDate_def)
  then have m: "length (padStart 2 CHR ''0'' (showNat (monthIndex d + 1))) = 2"
    by (rule showNat_length_2)
  have "dayOfMonth d < 100"
    using assms by (simp add: validDate_def daysInMonth_def split: if_splits)
  then have dd: "length (padStart 2 CHR ''0'' (showNat (dayOfMonth d))) = 2"
    by (rule showNat_length_2)
  show ?thesis
    by (rule exI [where x = "padStart 2 CHR ''0'' (showNat (monthIndex d + 1))"],
        rule exI [where x = "padStart 2 CHR ''0'' (showNat (dayOfMonth d))"])
      (use m dd in \<open>simp add: formatDate_def\<close>)
qed

subsubsection \<open>Regenerating the modules\<close>

lemma addModule_fresh:
  assumes "\<forall>b \<in> set c. mb_number b \<noteq> i"
  shows "addModule i d c = (c @ [rebuiltModule d i], None)"
proof -
  have "addAssignment i (c @ [newModuleBlock i d]) =
      Some (c @ [(newModuleBlock i d)\<lparr>mb_assignments := mb_assignments (newModuleBlock i d) @ ['''']\<rparr>])"
    using assms by (intro addAssignment_fresh) (simp_all add: newModuleBlock_def Let_def)
  then show ?thesis
    by (simp add: addModule_def rebuiltModule_def newModuleBlock_def Let_def)
qed

lemma rebuiltModule_number: "mb_number (rebuiltModule d i) = i"
  by (simp add: rebuiltModule_def newModuleBlock_def Let_def)

lemma rebuiltModule_fields:
  assumes "validDate d" "1 \<le> i"
  shows "rebuiltModule d i =
     \<lparr>mb_number = i, mb_hasAssignmentsContainer = True, mb_title = '''',
      mb_dates = formatDate (plusDays (7 * (i - 1)) d) @ '' - '' @
                 formatDate (plusDays (7 * (i - 1) + 6) d),
      mb_assignments = ['''']\<rparr>"
proof -
  have "mb_dates (rebuiltModule d i) = mb_dates (newModuleBlock i d)"
    by (simp add: rebuiltModule_def)
  with newModuleBlock_dates [OF assms] show ?thesis
    by (simp add: rebuiltModule_def newModuleBlock_def Let_def)
qed

lemma addModules_fresh:
  "distinct ns \<Longrightarrow> \<forall>b \<in> set c. mb_number b \<notin> set ns \<Longrightarrow>
   addModules ns d c = (c @ map (rebuiltModule d) ns, None)"
proof (induction ns arbitrary: c)
  case Nil
  then show ?case by simp
next
  case (Cons i ns)
  have step: "addModule i d c = (c @ [rebuiltModule d i], None)"
    using Cons.prems(2) by (intro addModule_fresh) simp
  have "\<forall>b \<in> set (c @ [rebuiltModule d i]). mb_number b \<notin> set ns"
    using Cons.prems by (auto simp: rebuiltModule_number)
  with Cons.IH [of "c @ [rebuiltModule d i]"] Cons.prems(1) step show ?case by simp
qed

lemma generateModules_without_date:
  "datePicker p \<noteq> ValidDate startDate \<Longrightarrow> datePicker p = EmptyValue \<or> datePicker p = InvalidDate
   \<Longrightarrow> fst (generateModules p) = p"
  by (auto simp: generateModules_def)

text \<open>
  Claim C10 as stated fails: with no start date selected, a change of the module count
  alerts and returns before the container is cleared, and the module the user filled in
  keeps its title and its assignment.
\<close>

theorem generateModules_keeps_modules_without_date:
  "generateModules
     \<lparr>moduleSelect = Some 2, datePicker = EmptyValue,
      modulesContainer =
        [\<lparr>mb_number = 1, mb_hasAssignmentsContainer = True, mb_title = ''Week one'',
          mb_dates = ''01/01/2024 - 01/07/2024'', mb_assignments = [''Essay'']\<rparr>]\<rparr>
   = (\<lparr>moduleSelect = Some 2, datePicker = EmptyValue,
       modulesContainer =
        [\<lparr>mb_number = 1, mb_hasAssignmentsContainer = True, mb_title = ''Week one'',
          mb_dates = ''01/01/2024 - 01/07/2024'', mb_assignments = [''Essay'']\<rparr>]\<rparr>,
      Alerted ''Please select a valid start date.'')"
  by (simp add: generateModules_def)

text \<open>
  Claim C10, amended. When the start-date picker holds a date, \<^verbatim>\<open>generateModules\<close>
  (the handler of the change events of the module-count selector and of the date picker)
  replaces the content of the modules container, whatever it was, by one new block per
  module number from 1 to the selected count, and completes without throwing; every
  block has an empty title and a single empty assignment, so nothing entered before is
  kept.
\<close>

theorem generateModules_rebuilds:
  assumes "datePicker p = ValidDate startDate"
  shows "generateModules p =
      (p\<lparr>modulesContainer :=
          map (rebuiltModule startDate) [1..<Suc (case moduleSelect p of None \<Rightarrow> 0 | Some n \<Rightarrow> n)]\<rparr>,
       Completed)
    \<and> (\<forall>b \<in> set (modulesContainer (fst (generateModules p))).
          mb_title b = '''' \<and> mb_assignments b = [''''])"
proof -
  let ?n = "case moduleSelect p of None \<Rightarrow> 0 | Some n \<Rightarrow> n"
  have "addModules [1..<Suc ?n] startDate [] = ([] @ map (rebuiltModule startDate) [1..<Suc ?n], None)"
    by (intro addModules_fresh) simp_all
  then have a: "addModules [1..<Suc ?n] startDate [] = (map (rebuiltModule startDate) [1..<Suc ?n], None)"
    by (simp del: upt_Suc)
  have g: "generateModules p =
      (p\<lparr>modulesContainer := map (rebuiltModule startDate) [1..<Suc ?n]\<rparr>, Completed)"
    using assms a by (simp add: generateModules_def Let_def del: upt_Suc)
  show ?thesis
    unfolding g by (auto simp: rebuiltModule_def newModuleBlock_def Let_def)
qed

text \<open>
  An instance: the page holds a module the user filled in, the start date is
  2024-01-29 and two modules are selected. The two rebuilt blocks are empty, and the
  second one runs over the end of January.
\<close>

theorem generateModules_rebuilds_witness:
  "datePicker
     \<lparr>moduleSelect = Some 2,
      datePicker = ValidDate \<lparr>fullYear = 2024, monthIndex = 0, dayOfMonth = 29\<rparr>,
      modulesContainer =
        [\<lparr>mb_number = 1, mb_hasAssignmentsContainer = True, mb_title = ''Week one'',
          mb_dates = ''01/01/2024 - 01/07/2024'', mb_assignments = [''Essay'']\<rparr>]\<rparr>
     = ValidDate \<lparr>fullYear = 2024, monthIndex = 0, dayOfMonth = 29\<rparr>
   \<and> generateModules
     \<lparr>moduleSelect = Some 2,
      datePicker = ValidDate \<lparr>fullYear = 2024, monthIndex = 0, dayOfMonth = 29\<rparr>,
      modulesContainer =
        [\<lparr>mb_number = 1, mb_hasAssignmentsContainer = True, mb_title = ''Week one'',
          mb_dates = ''01/01/2024 - 01/07/2024'', mb_assignments = [''Essay'']\<rparr>]\<rparr>
     = (\<lparr>moduleSelect = Some 2,
         datePicker = ValidDate \<lparr>fullYear = 2024, monthIndex = 0, dayOfMonth = 29\<rparr>,
         modulesContainer =
           [\<lparr>mb_number = 1, mb_hasAssignmentsContainer = True, mb_title = '''',
             mb_dates = ''01/29/2024 - 02/04/2024'', mb_assignments = ['''']\<rparr>,
            \<lparr>mb_number = 2, mb_hasAssignmentsContainer = True, mb_title = '''',
             mb_dates = ''02/05/2024 - 02/11/2024'', mb_assignments = ['''']\<rparr>]\<rparr>,
        Completed)"
proof -
  let ?S = "\<lparr>fullYear = 2024, monthIndex = 0, dayOfMonth = 29\<rparr>"
  have v: "validDate ?S" by (simp add: validDate_def daysInMonth_def)
  have d0: "plusDays 0 ?S = ?S" by (simp add: plusDays_def)
  have d6: "plusDays 6 ?S = \<lparr>fullYear = 2024, monthIndex = Suc 0, dayOfMonth = 4\<rparr>"
    by (simp add: plusDays_def eval_nat_numeral tomorrow_def daysInMonth_def leapYear_def)
  have d7: "plusDays 7 ?S = \<lparr>fullYear = 2024, monthIndex = Suc 0, dayOfMonth = 5\<rparr>"
    by (simp add: plusDays_def eval_nat_numeral tomorrow_def daysInMonth_def leapYear_def)
  have d13: "plusDays 13 ?S = \<lparr>fullYear = 2024, monthIndex = Suc 0, dayOfMonth = 11\<rparr>"
    by (simp add: plusDays_def eval_nat_numeral tomorrow_def daysInMonth_def leapYear_def)
  have f0: "formatDate ?S = ''01/29/2024''" by (simp add: formatDate_def show_simps)
  have f6: "formatDate \<lparr>fullYear = 2024, monthIndex = Suc 0, dayOfMonth = 4\<rparr> = ''02/04/2024''"
    by (simp add: formatDate_def show_simps)
  have f7: "formatDate \<lparr>fullYear = 2024, monthIndex = Suc 0, dayOfMonth = 5\<rparr> = ''02/05/2024''"
    by (simp add: formatDate_def show_simps)
  have f13: "formatDate \<lparr>fullYear = 2024, monthIndex = Suc 0, dayOfMonth = 11\<rparr> = ''02/11/2024''"
    by (simp add: formatDate_def show_simps)
  have r1: "rebuiltModule ?S (Suc 0) =
      \<lparr>mb_number = 1, mb_hasAssignmentsContainer = True, mb_title = '''',
       mb_dates = ''01/29/2024 - 02/04/2024'', mb_assignments = ['''']\<rparr>"
    using rebuiltModule_fields [OF v, of "Suc 0"] by (simp add: d0 d6 f0 f6)
  have r2: "rebuiltModule ?S (Suc (Suc 0)) =
      \<lparr>mb_number = 2, mb_hasAssignmentsContainer = True, mb_title = '''',
       mb_dates = ''02/05/2024 - 02/11/2024'', mb_assignments = ['''']\<rparr>"
    using rebuiltModule_fields [OF v, of "Suc (Suc 0)"] by (simp add: d7 d13 f7 f13)
  show ?thesis
    using generateModules_rebuilds [of
      "\<lparr>moduleSelect = Some 2, datePicker = ValidDate ?S,
        modulesContainer =
          [\<lparr>mb_number = 1, mb_hasAssignmentsContainer = True, mb_title = ''Week one'',
            mb_dates = ''01/01/2024 - 01/07/2024'', mb_assignments = [''Essay'']\<rparr>]\<rparr>" ?S]
    by (simp add: upt_conv_Cons r1 r2)
qed

subsection \<open>The SLO cell\<close>

lemma set_textareas_insert:
  "set (map ta_placeholder (textareas (insertBeforeAddButton (OutcomeGroup cls ta) cs))) =
   insert (ta_placeholder ta) (set (map ta_placeholder (textareas cs)))"
  by (induction cs rule: textareas.induct) auto

lemma distinct_textareas_insert:
  "ta_placeholder ta \<notin> set (map ta_placeholder (textareas cs)) \<Longrightarrow>
   distinct (map ta_placeholder (textareas cs)) \<Longrightarrow>
   distinct (map ta_placeholder (textareas (insertBeforeAddButton (OutcomeGroup cls ta) cs)))"
proof (induction cs rule: textareas.induct)
  case 1
  then show ?case by simp
next
  case (2 cls' ta' cs)
  then show ?case using set_textareas_insert [of cls ta cs] by auto
next
  case (3 cs)
  then show ?case by simp
qed

text \<open>
  Claim C7. When a textarea of the cell already carries the placeholder
  \<^verbatim>\<open>SLO o.s\<close>, \<^verbatim>\<open>addSLOInput\<close> returns the cell as it was: no group is
  added, and the number of groups stays. And whatever the arguments, a cell whose
  placeholders are pairwise different keeps them pairwise different, so
  \<^verbatim>\<open>addSLOInput\<close> never produces two groups with the same key in one cell.
\<close>

theorem addSLOInput_rejects_duplicate:
  "(''SLO '' @ templateString outcomeIndex @ ''.'' @ templateString sloIndex
       \<in> set (map ta_placeholder (textareas sloCell))
     \<longrightarrow> addSLOInput sloCell outcomeIndex sloIndex v = sloCell)
   \<and> (distinct (map ta_placeholder (textareas sloCell))
     \<longrightarrow> distinct (map ta_placeholder (textareas (addSLOInput sloCell outcomeIndex sloIndex v))))"
  by (auto simp: addSLOInput_def Let_def intro!: distinct_textareas_insert)

theorem addSLOInput_rejects_duplicate_witness:
  "''SLO '' @ templateString (JNum 2) @ ''.'' @ templateString (JNum 1)
       \<in> set (map ta_placeholder (textareas
            [OutcomeGroup ''outcome-wrapper'' \<lparr>ta_name = ''slo2[]'', ta_placeholder = ''SLO 2.1'', ta_text = ''Apply leadership''\<rparr>,
             AddOutcomeButton]))
   \<and> distinct (map ta_placeholder (textareas
            [OutcomeGroup ''outcome-wrapper'' \<lparr>ta_name = ''slo2[]'', ta_placeholder = ''SLO 2.1'', ta_text = ''Apply leadership''\<rparr>,
             AddOutcomeButton]))
   \<and> addSLOInput
        [OutcomeGroup ''outcome-wrapper'' \<lparr>ta_name = ''slo2[]'', ta_placeholder = ''SLO 2.1'', ta_text = ''Apply leadership''\<rparr>,
         AddOutcomeButton] (JNum 2) (JNum 1) ''Critique quality''
      = [OutcomeGroup ''outcome-wrapper'' \<lparr>ta_name = ''slo2[]'', ta_placeholder = ''SLO 2.1'', ta_text = ''Apply leadership''\<rparr>,
         AddOutcomeButton]"
proof -
  have p: "''SLO '' @ templateString (JNum 2) @ ''.'' @ templateString (JNum 1) = ''SLO 2.1''"
    by (simp add: showNat_digit digitChar_def)
  show ?thesis
    using addSLOInput_rejects_duplicate [of "JNum 2" "JNum 1"
      "[OutcomeGroup ''outcome-wrapper'' \<lparr>ta_name = ''slo2[]'', ta_placeholder = ''SLO 2.1'', ta_text = ''Apply leadership''\<rparr>,
         AddOutcomeButton]" "''Critique quality''"]
    unfolding p by simp
qed

subsection \<open>The weighting total\<close>

lemmas parse_simps = parseFloat_def isSpace_def isDigit_def wholeValue_def digitValue_def
  maxSafeWhole_def

lemma parseFloat_30: "parseFloat ''30'' = Some (Whole 30)"
  by (simp add: parse_simps)

lemma parseFloat_40: "parseFloat ''40'' = Some (Whole 40)"
  by (simp add: parse_simps)

lemma parseFloat_50: "parseFloat ''50'' = Some (Whole 50)"
  by (simp add: parse_simps)

lemma parseFloat_60: "parseFloat ''60'' = Some (Whole 60)"
  by (simp add: parse_simps)

lemma showTotal_0: "showTotal 0 = (''0%'', '''')"
  by (simp add: showTotal_def show_simps)

lemma showTotal_100: "showTotal 100 = (''100%'', '''')"
  by (simp add: showTotal_def show_simps)

lemma showTotal_110: "showTotal 110 = (''110%'', ''red'')"
  by (simp add: showTotal_def show_simps)

text \<open>
  The spec's two examples, on rows whose weight inputs are named \<^verbatim>\<open>weight\<close> (the rows
  \<^verbatim>\<open>updateWeightingDetailsAndAssignments\<close> builds): 30, 30 and 50 show
  \<^verbatim>\<open>110%\<close> in red, 40 and 60 show \<^verbatim>\<open>100%\<close> unflagged.
\<close>

lemma updateTotalWeight_example_110:
  "updateTotalWeight
     \<lparr>weightingTbody = Some
        [[\<lparr>input_name = ''assessedElement'', input_text = ''Quiz''\<rparr>,
          \<lparr>input_name = ''weight'', input_text = ''30''\<rparr>],
         [\<lparr>input_name = ''assessedElement'', input_text = ''Paper''\<rparr>,
          \<lparr>input_name = ''weight'', input_text = ''30''\<rparr>],
         [\<lparr>input_name = ''assessedElement'', input_text = ''Exam''\<rparr>,
          \<lparr>input_name = ''weight'', input_text = ''50''\<rparr>]],
      totalWeightElement = Some ('''', '''')\<rparr>
   = Some
     \<lparr>weightingTbody = Some
        [[\<lparr>input_name = ''assessedElement'', input_text = ''Quiz''\<rparr>,
          \<lparr>input_name = ''weight'', input_text = ''30''\<rparr>],
         [\<lparr>input_name = ''assessedElement'', input_text = ''Paper''\<rparr>,
          \<lparr>input_name = ''weight'', input_text = ''30''\<rparr>],
         [\<lparr>input_name = ''assessedElement'', input_text = ''Exam''\<rparr>,
          \<lparr>input_name = ''weight'', input_text = ''50''\<rparr>]],
      totalWeightElement = Some (''110%'', ''red'')\<rparr>"
  by (simp add: updateTotalWeight_def parseFloat_30 parseFloat_50 maxSafeWhole_def showTotal_110)

lemma updateTotalWeight_example_100:
  "updateTotalWeight
     \<lparr>weightingTbody = Some
        [[\<lparr>input_name = ''assessedElement'', input_text = ''Paper''\<rparr>,
          \<lparr>input_name = ''weight'', input_text = ''40''\<rparr>],
         [\<lparr>input_name = ''assessedElement'', input_text = ''Exam''\<rparr>,
          \<lparr>input_name = ''weight'', input_text = ''60''\<rparr>]],
      totalWeightElement = Some ('''', '''')\<rparr>
   = Some
     \<lparr>weightingTbody = Some
        [[\<lparr>input_name = ''assessedElement'', input_text = ''Paper''\<rparr>,
          \<lparr>input_name = ''weight'', input_text = ''40''\<rparr>],
         [\<lparr>input_name = ''assessedElement'', input_text = ''Exam''\<rparr>,
          \<lparr>input_name = ''weight'', input_text = ''60''\<rparr>]],
      totalWeightElement = Some (''100%'', '''')\<rparr>"
  by (simp add: updateTotalWeight_def parseFloat_40 parseFloat_60 maxSafeWhole_def showTotal_100)

text \<open>
  In general: when the texts of the inputs named \<^verbatim>\<open>weight\<close> read as whole numbers
  that are not negative, the display is their exact sum followed by a percent sign, red
  exactly when the sum is over 100.
\<close>

lemma sumWeights_whole:
  "list_all2 (\<lambda>v w. parseFloat v = Some (Whole w) \<and> 0 \<le> w) vs ws \<Longrightarrow> 0 \<le> t \<Longrightarrow>
   t + sum_list ws \<le> maxSafeWhole \<Longrightarrow> sumWeights t vs = Some (t + sum_list ws)"
proof (induction vs ws arbitrary: t rule: list_all2_induct)
  case Nil
  then show ?case by simp
next
  case (Cons v vs w ws)
  have nonneg: "0 \<le> sum_list ws"
    using Cons.hyps(2) by (induction vs ws rule: list_all2_induct) auto
  have "\<bar>t + w\<bar> \<le> maxSafeWhole" using Cons.hyps(1) Cons.prems nonneg by simp
  moreover have "sumWeights (t + w) vs = Some (t + w + sum_list ws)"
    using Cons.hyps(1) Cons.prems by (intro Cons.IH) simp_all
  ultimately show ?case using Cons.hyps(1) by (simp add: Let_def add.assoc)
qed

lemma updateTotalWeight_exact_sum:
  assumes "weightingTbody sec = Some rows" and "totalWeightElement sec = Some e"
    and "list_all2 (\<lambda>v w. parseFloat v = Some (Whole w) \<and> 0 \<le> w)
           (map input_text (filter (\<lambda>i. input_name i = ''weight'') (concat rows))) ws"
    and "sum_list ws \<le> maxSafeWhole"
  shows "updateTotalWeight sec =
     Some (sec\<lparr>totalWeightElement :=
        Some (showInt (sum_list ws) @ ''%'', if 100 < sum_list ws then ''red'' else '''')\<rparr>)"
  using assms sumWeights_whole [OF assms(3), of 0]
  by (simp add: updateTotalWeight_def showTotal_def)

text \<open>
  Claim C8 fails on the rows the Add button creates. \<^verbatim>\<open>addWeightingRow\<close> names the
  weight input \<^verbatim>\<open>weight[]\<close> and attaches \<^verbatim>\<open>updateTotalWeight\<close> of eventInit.js
  to it, whose selector \<^verbatim>\<open>input[name="weight"]\<close> does not match that name. With
  three added rows and the weights 30, 30 and 50 typed in, the total reads
  \<^verbatim>\<open>0%\<close>, unflagged.
\<close>

theorem updateTotalWeight_misses_added_rows:
  "map_option totalWeightElement
     (updateTotalWeight
        (userTypes 2 1 ''50'' (userTypes 1 1 ''30'' (userTypes 0 1 ''30''
          (addWeightingRow (addWeightingRow (addWeightingRow
            \<lparr>weightingTbody = Some [], totalWeightElement = Some ('''', '''')\<rparr>)))))))
   = Some (Some (''0%'', ''''))"
  by (simp add: updateTotalWeight_def userTypes_def addWeightingRow_def showTotal_0)

text \<open>
  On the same rows \<^verbatim>\<open>updateTotalWeight\<close> of formUtils.js, which selects by the
  prefix \<^verbatim>\<open>weight\<close>, shows the sum.
\<close>

lemma updateTotalWeight_formUtils_added_rows:
  "map_option totalWeightElement
     (updateTotalWeight_formUtils
        (userTypes 2 1 ''50'' (userTypes 1 1 ''30'' (userTypes 0 1 ''30''
          (addWeightingRow (addWeightingRow (addWeightingRow
            \<lparr>weightingTbody = Some [], totalWeightElement = Some ('''', '''')\<rparr>)))))))
   = Some (Some (''110%'', ''red''))"
  by (simp add: updateTotalWeight_formUtils_def userTypes_def addWeightingRow_def
      parseFloat_30 parseFloat_50 maxSafeWhole_def showTotal_110)

subsection \<open>Populating fields\<close>

lemma find_setElementValue_other:
  "i \<noteq> k \<Longrightarrow>
   find (\<lambda>c. c_id c = Some k) (setElementValue i v cs) = find (\<lambda>c. c_id c = Some k) cs"
  by (induction cs) auto

lemma find_setElementValue_same:
  "find (\<lambda>c. c_id c = Some k) (setElementValue k v cs) =
   map_option (\<lambda>c. c\<lparr>c_text := assignValue (c_kind c) v\<rparr>) (find (\<lambda>c. c_id c = Some k) cs)"
  by (induction cs) auto

lemma find_setElementValue_kind:
  "map_option c_kind (find (\<lambda>c. c_id c = Some k) (setElementValue i v cs)) =
   map_option c_kind (find (\<lambda>c. c_id c = Some k) cs)"
  by (cases "i = k")
    (simp_all add: find_setElementValue_other find_setElementValue_same option.map_comp comp_def)

lemma populateFields_snoc:
  "populateFields (xs @ [x]) data defaults cs =
   setElementValue x (nullish (data x) (defaults x)) (populateFields xs data defaults cs)"
  by (simp add: populateFields_def)

lemma find_populateFields_kind:
  "map_option c_kind (find (\<lambda>c. c_id c = Some k) (populateFields fieldIds data defaults cs)) =
   map_option c_kind (find (\<lambda>c. c_id c = Some k) cs)"
proof (induction fieldIds rule: rev_induct)
  case Nil
  then show ?case by (simp add: populateFields_def)
next
  case (snoc x xs)
  then show ?case
    by (simp only: populateFields_snoc find_setElementValue_kind)
qed

text \<open>
  After \<^verbatim>\<open>populateFields\<close>, a field of the list that has an element holds
  \<^verbatim>\<open>data[field] ?? defaults[field] ?? ''\<close>, as the element takes it.
\<close>

lemma populateFields_value:
  assumes "k \<in> set fieldIds" and "find (\<lambda>c. c_id c = Some k) cs = Some c"
  shows "getValueById k (populateFields fieldIds data defaults cs) =
     assignValue (c_kind c) (nullish (data k) (defaults k))"
  using assms(1)
proof (induction fieldIds rule: rev_induct)
  case Nil
  then show ?case by simp
next
  case (snoc x xs)
  let ?cs = "populateFields xs data defaults cs"
  have "map_option c_kind (find (\<lambda>c. c_id c = Some k) ?cs) = Some (c_kind c)"
    using find_populateFields_kind [of k xs data defaults cs] assms(2) by simp
  then obtain c' where c': "find (\<lambda>c. c_id c = Some k) ?cs = Some c'" "c_kind c' = c_kind c"
    by auto
  show ?case
  proof (cases "x = k")
    case True
    then show ?thesis
      unfolding populateFields_snoc getValueById_def using c'
      by (simp add: find_setElementValue_same)
  next
    case False
    with snoc.prems have "k \<in> set xs" by simp
    from snoc.IH [OF this] False show ?thesis
      unfolding populateFields_snoc getValueById_def
      by (simp add: find_setElementValue_other)
  qed
qed

lemma populateFields_untouched:
  "k \<notin> set fieldIds \<Longrightarrow>
   find (\<lambda>c. c_id c = Some k) (populateFields fieldIds data defaults cs) =
   find (\<lambda>c. c_id c = Some k) cs"
proof (induction fieldIds rule: rev_induct)
  case Nil
  then show ?case by (simp add: populateFields_def)
next
  case (snoc x xs)
  then have "x \<noteq> k" "k \<notin> set xs" by auto
  with snoc.IH show ?case
    by (simp add: populateFields_snoc find_setElementValue_other)
qed

subsection \<open>Policy defaults\<close>

lemma populatePolicies_populateFields:
  "populatePolicies dp stored program cs =
   populateFields policyFields
     (case stored of None \<Rightarrow> Map.empty | Some m \<Rightarrow> m)
     (map_of (case programDefaults dp program of Some t \<Rightarrow> t | None \<Rightarrow> BSN dp)) cs"
  by (simp add: populatePolicies_def populateFields_def Let_def)

text \<open>
  \<^verbatim>\<open>populatePolicies\<close> does what claim C9 says: each of the 18 policy fields takes
  the stored value when there is one, otherwise the default text of the program (of BSN
  for an unknown program), otherwise the empty string.
\<close>

lemma populatePolicies_priority:
  assumes "policy \<in> set policyFields" and "find (\<lambda>c. c_id c = Some policy) cs = Some c"
  shows "getValueById policy (populatePolicies dp stored program cs) =
     assignValue (c_kind c)
       (case (case stored of None \<Rightarrow> None | Some m \<Rightarrow> m policy) of
          Some v \<Rightarrow> v
        | None \<Rightarrow>
           (case map_of (case programDefaults dp program of Some t \<Rightarrow> t | None \<Rightarrow> BSN dp) policy of
              Some d \<Rightarrow> d
            | None \<Rightarrow> ''''))"
  unfolding populatePolicies_populateFields populateFields_value [OF assms]
  by (cases stored) (simp_all add: nullish_def)

lemma controls_populateForm:
  assumes "pageAfter (populateForm dp sd page) = Some page'"
  shows "controls page' =
     populateFields (map fst (BSN dp))
       (case sd_policiesAndServices sd of None \<Rightarrow> Map.empty | Some m \<Rightarrow> m)
       (map_of (BSN dp))
       (populateFields generalFields (sd_fields sd) Map.empty (controls page))"
  using assms
  by (auto simp: populateForm_def pageAfter_def populateInstructors_def Let_def
      split: option.splits if_splits js_list.splits)

text \<open>
  Claim C9 against \<^verbatim>\<open>populateForm\<close>, the populator the page runs: a policy field
  with no stored value takes the default text of BSN, whatever program the document
  selects.
\<close>

theorem populateForm_policy_default_is_BSN:
  assumes "policy \<in> set (map fst (BSN dp))"
    and "find (\<lambda>c. c_id c = Some policy) (controls page) = Some c"
    and "pageAfter (populateForm dp sd page) = Some page'"
  shows "getValueById policy (controls page') =
     assignValue (c_kind c)
       (case (case sd_policiesAndServices sd of None \<Rightarrow> None | Some m \<Rightarrow> m policy) of
          Some v \<Rightarrow> v
        | None \<Rightarrow> (case map_of (BSN dp) policy of Some d \<Rightarrow> d | None \<Rightarrow> ''''))"
proof -
  let ?cs1 = "populateFields generalFields (sd_fields sd) Map.empty (controls page)"
  have "map_option c_kind (find (\<lambda>c. c_id c = Some policy) ?cs1) = Some (c_kind c)"
    using find_populateFields_kind [of policy generalFields "sd_fields sd" Map.empty "controls page"]
      assms(2) by simp
  then obtain c1 where c1: "find (\<lambda>c. c_id c = Some policy) ?cs1 = Some c1" "c_kind c1 = c_kind c"
    by auto
  show ?thesis
    unfolding controls_populateForm [OF assms(3)] populateFields_value [OF assms(1) c1(1)]
    using c1(2) by (cases "sd_policiesAndServices sd") (simp_all add: nullish_def)
qed

theorem populateForm_policy_default_is_BSN_witness:
  "''generalPolicies'' \<in> set (map fst (BSN generalPoliciesDefaults))
   \<and> find (\<lambda>c. c_id c = Some ''generalPolicies'') (controls examplePage)
       = Some \<lparr>c_id = Some ''generalPolicies'', c_policyKey = Some ''generalPolicies'',
                c_kind = TextArea, c_text = ''''\<rparr>
   \<and> sd_fields exampleDocument ''programSelect'' = Some ''MSN''
   \<and> (\<exists>page'. pageAfter (populateForm generalPoliciesDefaults exampleDocument examplePage) = Some page'
        \<and> getValueById ''generalPolicies'' (controls page')
            = ''This course will abide by all Jefferson College of Nursing and Thomas Jefferson University policies. Students are responsible for knowing and adhering to University policies (https://www.jefferson.edu/academicpolicies) and policies as outlined in the Jefferson College of Nursing Student Handbook & Course Catalog.'')"
proof -
  have k: "''generalPolicies'' \<in> set (map fst (BSN generalPoliciesDefaults))"
    by (simp add: generalPoliciesDefaults_def)
  have f: "find (\<lambda>c. c_id c = Some ''generalPolicies'') (controls examplePage)
       = Some \<lparr>c_id = Some ''generalPolicies'', c_policyKey = Some ''generalPolicies'',
                c_kind = TextArea, c_text = ''''\<rparr>"
    by (simp add: examplePage_def)
  have i: "instructorBlock 0 exampleInstructor \<noteq> None"
    by (simp add: exampleInstructor_def instructorBlock_def attributeValue_def textareaContent_def
        printable_def)
  obtain page' where p: "pageAfter (populateForm generalPoliciesDefaults exampleDocument examplePage) = Some page'"
    using i by (auto simp: populateForm_def pageAfter_def exampleDocument_def examplePage_def
        populateInstructors_def Let_def split: option.splits)
  have n: "normalizeNewlines ''This course will abide by all Jefferson College of Nursing and Thomas Jefferson University policies. Students are responsible for knowing and adhering to University policies (https://www.jefferson.edu/academicpolicies) and policies as outlined in the Jefferson College of Nursing Student Handbook & Course Catalog.''
     = ''This course will abide by all Jefferson College of Nursing and Thomas Jefferson University policies. Students are responsible for knowing and adhering to University policies (https://www.jefferson.edu/academicpolicies) and policies as outlined in the Jefferson College of Nursing Student Handbook & Course Catalog.''"
    by simp
  have "getValueById ''generalPolicies'' (controls page') =
      ''This course will abide by all Jefferson College of Nursing and Thomas Jefferson University policies. Students are responsible for knowing and adhering to University policies (https://www.jefferson.edu/academicpolicies) and policies as outlined in the Jefferson College of Nursing Student Handbook & Course Catalog.''"
    using populateForm_policy_default_is_BSN [OF k f p] n
    by (simp add: exampleDocument_def generalPoliciesDefaults_def assignValue_def)
  with k f p show ?thesis by (simp add: exampleDocument_def)
qed

subsection \<open>Populating and assembling again\<close>

lemma populateForm_instructors:
  assumes "progOutcomesTbody page" and "outcomesAssessmentTable page = TableWithTbody"
    and "instructorsContainer page = Some old"
    and "sd_instructors sd = Array xs"
    and "those (map (\<lambda>(index, x). instructorBlock index x) (zip [0..<length xs] xs)) = Some divs"
  shows "\<exists>page'. pageAfter (populateForm dp sd page) = Some page'
           \<and> instructorsContainer page' = Some divs
           \<and> progOutcomesTbody page' \<and> outcomesAssessmentTable page' = TableWithTbody"
  using assms
  by (simp add: populateForm_def pageAfter_def populateInstructors_def Let_def
      populateProgramAndSLOs_def updateLearningOutcomesAndAssessments_def
      populateLearningOutcomes_def)

lemma fd_instructors_collectFormData:
  "instructorsContainer page = Some divs \<Longrightarrow>
   fd_instructors (collectFormData page) =
     map (\<lambda>(index, instructorDiv). collectInstructor index instructorDiv) (zip [0..<length divs] divs)"
  by (simp add: collectFormData_def)

lemma instructorFieldName_inject:
  "instructorFieldName i p = instructorFieldName i q \<longleftrightarrow> p = q"
  by (simp add: instructorFieldName_def)

lemma collectInstructor_instructorBlock:
  assumes "instructorBlock index x = Some b"
  shows "collectInstructor index b =
     \<lparr>i_name = trim (the (attributeValue (i_name x))),
      i_email = trim (trim (the (attributeValue (i_email x)))),
      i_phone = trim (the (attributeValue (i_phone x))),
      i_office = trim (the (attributeValue (i_office x))),
      i_officeHours = trim (the (textareaContent (i_officeHours x)))\<rparr>"
  using assms
  by (auto simp: instructorBlock_def collectInstructor_def fieldByName_def instructorFieldName_inject
      split: option.splits)

lemma exampleInstructor_shown:
  "\<exists>b. instructorBlock 0 exampleInstructor = Some b
     \<and> collectInstructor 0 b =
         exampleInstructor\<lparr>i_name := ''Dr. '' @ [CHR 0x22] @ ''Bob'' @ [CHR 0x22] @ '' Lee''\<rparr>"
proof -
  have "instructorBlock 0 exampleInstructor \<noteq> None"
    by (simp add: exampleInstructor_def instructorBlock_def attributeValue_def textareaContent_def
        printable_def)
  then obtain b where b: "instructorBlock 0 exampleInstructor = Some b" by auto
  have "collectInstructor 0 b =
      exampleInstructor\<lparr>i_name := ''Dr. '' @ [CHR 0x22] @ ''Bob'' @ [CHR 0x22] @ '' Lee''\<rparr>"
    unfolding collectInstructor_instructorBlock [OF b]
    by (simp add: exampleInstructor_def attributeValue_def textareaContent_def printable_def
        trim_def isSpace_def)
  with b show ?thesis by simp
qed

lemma exampleInstructor_shown_again:
  "\<exists>b. instructorBlock 0
         (exampleInstructor\<lparr>i_name := ''Dr. '' @ [CHR 0x22] @ ''Bob'' @ [CHR 0x22] @ '' Lee''\<rparr>) = Some b
     \<and> collectInstructor 0 b = exampleInstructor\<lparr>i_name := ''Dr.''\<rparr>"
proof -
  let ?x = "exampleInstructor\<lparr>i_name := ''Dr. '' @ [CHR 0x22] @ ''Bob'' @ [CHR 0x22] @ '' Lee''\<rparr>"
  have "instructorBlock 0 ?x \<noteq> None"
    by (simp add: exampleInstructor_def instructorBlock_def attributeValue_def textareaContent_def
        printable_def)
  then obtain b where b: "instructorBlock 0 ?x = Some b" by auto
  have "collectInstructor 0 b = exampleInstructor\<lparr>i_name := ''Dr.''\<rparr>"
    unfolding collectInstructor_instructorBlock [OF b]
    by (simp add: exampleInstructor_def attributeValue_def textareaContent_def printable_def
        trim_def isSpace_def)
  with b show ?thesis by simp
qed

text \<open>
  Claim C1 on the example document, whose instructor is named
  \<^verbatim>\<open>Dr. &quot;Bob&quot; Lee\<close>: populating and assembling gives a document \<open>D'\<close> with the
  name \<^verbatim>\<open>Dr. "Bob" Lee\<close>; populating from \<open>D'\<close> and assembling again gives the name
  \<^verbatim>\<open>Dr.\<close>, for the name is pasted unescaped into \<^verbatim>\<open>value="..."\<close> and ends at its
  first double quote. This holds whatever the table of default policies is.
\<close>

theorem roundTrip_cuts_quoted_instructor_name:
  "\<forall>dp. \<exists>D' D''. roundTrip dp exampleDocument examplePage = Some (D', D'')
     \<and> map i_name (fd_instructors D') = [''Dr. '' @ [CHR 0x22] @ ''Bob'' @ [CHR 0x22] @ '' Lee'']
     \<and> map i_name (fd_instructors D'') = [''Dr.'']
     \<and> D' \<noteq> D''"
proof
  fix dp
  let ?x1 = "exampleInstructor\<lparr>i_name := ''Dr. '' @ [CHR 0x22] @ ''Bob'' @ [CHR 0x22] @ '' Lee''\<rparr>"
  let ?x2 = "exampleInstructor\<lparr>i_name := ''Dr.''\<rparr>"
  obtain d1 where d1: "instructorBlock 0 exampleInstructor = Some d1" "collectInstructor 0 d1 = ?x1"
    using exampleInstructor_shown by auto
  obtain d2 where d2: "instructorBlock 0 ?x1 = Some d2" "collectInstructor 0 d2 = ?x2"
    using exampleInstructor_shown_again by auto
  have "\<exists>page1. pageAfter (populateForm dp exampleDocument examplePage) = Some page1
           \<and> instructorsContainer page1 = Some [d1]
           \<and> progOutcomesTbody page1 \<and> outcomesAssessmentTable page1 = TableWithTbody"
    by (rule populateForm_instructors [where xs = "[exampleInstructor]" and old = "[]"])
       (simp_all add: examplePage_def exampleDocument_def d1)
  then obtain page1 where p1: "pageAfter (populateForm dp exampleDocument examplePage) = Some page1"
    "instructorsContainer page1 = Some [d1]" "progOutcomesTbody page1"
    "outcomesAssessmentTable page1 = TableWithTbody" by auto
  have c1: "fd_instructors (collectFormData page1) = [?x1]"
    by (simp add: fd_instructors_collectFormData [OF p1(2)] d1)
  have "\<exists>page2. pageAfter (populateForm dp (asSyllabusData (collectFormData page1)) page1) = Some page2
           \<and> instructorsContainer page2 = Some [d2]
           \<and> progOutcomesTbody page2 \<and> outcomesAssessmentTable page2 = TableWithTbody"
    by (rule populateForm_instructors [where xs = "[?x1]" and old = "[d1]"])
       (use d2 in \<open>simp_all add: p1 asSyllabusData_def c1\<close>)
  then obtain page2 where p2:
    "pageAfter (populateForm dp (asSyllabusData (collectFormData page1)) page1) = Some page2"
    "instructorsContainer page2 = Some [d2]" by auto
  have c2: "fd_instructors (collectFormData page2) = [?x2]"
    by (simp add: fd_instructors_collectFormData [OF p2(2)] d2)
  have "collectFormData page1 \<noteq> collectFormData page2"
    using c1 c2 by (auto simp: exampleInstructor_def)
  then show "\<exists>D' D''. roundTrip dp exampleDocument examplePage = Some (D', D'')
     \<and> map i_name (fd_instructors D') = [''Dr. '' @ [CHR 0x22] @ ''Bob'' @ [CHR 0x22] @ '' Lee'']
     \<and> map i_name (fd_instructors D'') = [''Dr.'']
     \<and> D' \<noteq> D''"
    by (simp add: roundTrip_def p1 p2 c1 c2)
qed

subsection \<open>Saving\<close>

lemma previousFormData_resumed:
  "previousFormData (saveFormData_resumed p outcome st) = previousFormData st"
  by (simp add: saveFormData_resumed_def split: fetch_outcome.splits response_body.splits)

lemma ss_userId_resumed:
  "ss_userId (saveFormData_resumed p outcome st) = ss_userId st"
  by (simp add: saveFormData_resumed_def split: fetch_outcome.splits response_body.splits)

lemma deliveries_keep:
  "previousFormData (foldl step st (map (\<lambda>(i, outcome). Deliver i outcome) ds)) = previousFormData st
   \<and> ss_userId (foldl step st (map (\<lambda>(i, outcome). Deliver i outcome) ds)) = ss_userId st"
  by (induction ds arbitrary: st) (auto simp: previousFormData_resumed ss_userId_resumed)

lemma saveFormData_autosave_skipped:
  "\<not> truthy (ss_userId st) \<or> previousFormData st = Some formData \<Longrightarrow>
   saveFormData True formData now st = st"
  by (auto simp: saveFormData_def truthy_def split: option.splits)

lemma saveFormData_snapshot:
  "\<not> truthy (ss_userId (saveFormData isAutosave formData now st))
   \<or> previousFormData (saveFormData isAutosave formData now st) = Some formData"
  by (auto simp: saveFormData_def truthy_def Let_def split: option.splits)

text \<open>
  Claim C2: an autosave, then the outcomes of any waiting requests, then an autosave
  of the same document: the second autosave changes nothing in the state of the
  session, so it adds no request to the log and no save to those waiting.
\<close>

theorem autosave_twice_sends_nothing:
  "run st (Save True formData t1 # map (\<lambda>(i, outcome). Deliver i outcome) deliveries
            @ [Save True formData t2])
   = run st (Save True formData t1 # map (\<lambda>(i, outcome). Deliver i outcome) deliveries)"
proof -
  let ?s1 = "saveFormData True formData t1 st"
  let ?s2 = "foldl step ?s1 (map (\<lambda>(i, outcome). Deliver i outcome) deliveries)"
  have "\<not> truthy (ss_userId ?s2) \<or> previousFormData ?s2 = Some formData"
    using saveFormData_snapshot [of True formData t1 st] by (simp add: deliveries_keep)
  then have "saveFormData True formData t2 ?s2 = ?s2"
    by (rule saveFormData_autosave_skipped)
  then show ?thesis by (simp add: run_def)
qed

lemma filledFormData_valid:
  "\<not> list_ex (\<lambda>(key, v). v = '''') (fd_scalars filledFormData)"
  by (simp add: filledFormData_def generalFields_def)

text \<open>
  Claim C3 fails: an autosave tick and, while its request is out, a click on Save
  with the same document put two requests in flight.
\<close>

theorem two_saves_in_flight:
  "length (inFlight (run newSession
      [Save True filledFormData ''2024-01-01T10:00:00.000Z'',
       Save False filledFormData ''2024-01-01T10:00:01.000Z''])) = 2"
  using filledFormData_valid
  by (simp add: run_def saveFormData_def newSession_def truthy_def Let_def)

text \<open>
  Claim C3 as amended: whether a save sends its request does not depend on the saves
  in flight. It sends one, and waits with the others, exactly when the user id is
  there and, for an autosave, the document differs from the one of the previous
  attempt or, for a manual save, no scalar field is empty; otherwise the saves in
  flight stay as they are.
\<close>

theorem saveFormData_has_no_inflight_guard:
  "length (inFlight (saveFormData isAutosave formData now st)) =
     (if truthy (ss_userId st)
         \<and> (if isAutosave then previousFormData st \<noteq> Some formData
             else \<not> list_ex (\<lambda>(key, v). v = '''') (fd_scalars formData))
      then Suc (length (inFlight st)) else length (inFlight st))
   \<and> take (length (inFlight st)) (inFlight (saveFormData isAutosave formData now st)) = inFlight st"
  by (auto simp: saveFormData_def truthy_def Let_def split: option.splits)

theorem saveFormData_has_no_inflight_guard_witness:
  "length (inFlight (saveFormData False filledFormData ''2024-01-01T10:00:01.000Z''
      (saveFormData True filledFormData ''2024-01-01T10:00:00.000Z'' newSession))) = 2"
proof -
  let ?s1 = "saveFormData True filledFormData ''2024-01-01T10:00:00.000Z'' newSession"
  have u: "truthy (ss_userId ?s1)"
    by (simp add: saveFormData_def newSession_def truthy_def Let_def)
  have "length (inFlight ?s1) = 1"
    using saveFormData_has_no_inflight_guard [of True filledFormData "''2024-01-01T10:00:00.000Z''" newSession]
    by (simp add: newSession_def truthy_def)
  then show ?thesis
    using saveFormData_has_no_inflight_guard [of False filledFormData "''2024-01-01T10:00:01.000Z''" ?s1]
      u filledFormData_valid by simp
qed

lemma ss_syllabusId_saveFormData:
  "ss_syllabusId (saveFormData isAutosave formData now st) = ss_syllabusId st"
  by (simp add: saveFormData_def Let_def split: option.splits)

text \<open>
  Claim C4 fails: the snapshot \<^verbatim>\<open>previousFormData\<close> is written while the request is
  still out, and it stays after a network error, so that the next autosave tick sends
  nothing; and a 404 on an update removes the stored id.
\<close>

theorem snapshot_written_before_response:
  "previousFormData newSession = None
   \<and> previousFormData (run newSession [Save True filledFormData ''2024-01-01T10:00:00.000Z''])
       = Some filledFormData
   \<and> length (inFlight (run newSession [Save True filledFormData ''2024-01-01T10:00:00.000Z''])) = 1
   \<and> length (sent (run newSession
         [Save True filledFormData ''2024-01-01T10:00:00.000Z'',
          Deliver 0 NetworkError,
          Save True filledFormData ''2024-01-01T10:01:00.000Z''])) = 1
   \<and> ss_syllabusId openedSession = Some ''abc''
   \<and> ss_syllabusId (run openedSession
         [Save True filledFormData ''2024-01-01T10:00:00.000Z'',
          Deliver 0 (Response \<lparr>resp_status = 404, resp_body = JsonObject None\<rparr>)]) = None"
  by (simp add: run_def saveFormData_def saveFormData_resumed_def responseOk_def newSession_def
      openedSession_def truthy_def Let_def)

text \<open>
  Claim C4 as amended, for the stored syllabus id: an event changes it only when it
  is the response to a waiting save, with a body that can be read; either the status
  is 404 and the id is removed, or the response is ok, the save had started without
  an id, and the id is the one the response returns. So the start of a save, a
  network error and every other server error leave it as it is.
\<close>

theorem stored_id_written_only_by_response:
  assumes "ss_syllabusId (step st e) \<noteq> ss_syllabusId st"
  shows "\<exists>i response. e = Deliver i (Response response) \<and> i < length (inFlight st)
           \<and> resp_body response \<noteq> NotJson
           \<and> ((resp_status response = 404 \<and> ss_syllabusId (step st e) = None)
               \<or> (responseOk response \<and> \<not> truthy (ps_syllabusId (inFlight st ! i))
                   \<and> truthy (ss_syllabusId (step st e))
                   \<and> resp_body response = JsonObject (ss_syllabusId (step st e))))"
proof (cases e)
  case (Save isAutosave formData now)
  with assms show ?thesis by (simp add: ss_syllabusId_saveFormData)
next
  case (Deliver i outcome)
  with assms show ?thesis
    by (auto simp: saveFormData_resumed_def responseOk_def
        split: if_splits fetch_outcome.splits response_body.splits)
qed

theorem stored_id_written_only_by_response_witness:
  "ss_syllabusId (step (saveFormData True filledFormData ''2024-01-01T10:00:00.000Z'' newSession)
       (Deliver 0 (Response \<lparr>resp_status = 201, resp_body = JsonObject (Some ''s7'')\<rparr>)))
     \<noteq> ss_syllabusId (saveFormData True filledFormData ''2024-01-01T10:00:00.000Z'' newSession)
   \<and> ss_syllabusId (step (saveFormData True filledFormData ''2024-01-01T10:00:00.000Z'' newSession)
       (Deliver 0 (Response \<lparr>resp_status = 201, resp_body = JsonObject (Some ''s7'')\<rparr>))) = Some ''s7''"
proof -
  let ?s1 = "saveFormData True filledFormData ''2024-01-01T10:00:00.000Z'' newSession"
  let ?e = "Deliver 0 (Response \<lparr>resp_status = 201, resp_body = JsonObject (Some ''s7'')\<rparr>)"
  have n: "ss_syllabusId ?s1 = None"
    by (simp add: ss_syllabusId_saveFormData newSession_def)
  have c: "ss_syllabusId (step ?s1 ?e) \<noteq> ss_syllabusId ?s1"
    by (simp add: saveFormData_def saveFormData_resumed_def responseOk_def newSession_def
        truthy_def Let_def)
  from stored_id_written_only_by_response [OF c]
  have "ss_syllabusId (step ?s1 ?e) = None \<or> ss_syllabusId (step ?s1 ?e) = Some ''s7''"
    by auto
  with c n show ?thesis by auto
qed

lemma saveFormData_sends:
  assumes "ss_userId st = Some userId" and "userId \<noteq> ''''"
    and "isAutosave \<Longrightarrow> previousFormData st \<noteq> Some formData"
    and "\<not> isAutosave \<Longrightarrow> \<not> list_ex (\<lambda>(key, v). v = '''') (fd_scalars formData)"
  shows "\<exists>r. sent (saveFormData isAutosave formData now st) = sent st @ [r]
     \<and> (req_method r, req_url r) =
         (case (if truthy (ss_syllabusId st) then ss_syllabusId st else el_syllabusId st) of
            None \<Rightarrow> (POST, ''/syllabus'')
          | Some i \<Rightarrow> if i = '''' then (POST, ''/syllabus'') else (PUT, ''/syllabus/update/'' @ i))"
  using assms
  by (cases isAutosave) (auto simp: saveFormData_def truthy_def Let_def split: option.splits)

text \<open>
  A save with no id, neither stored nor in the hidden input, is a create; when its ok
  response returns an id, the id is stored and the next save that sends a request is
  an update to it.
\<close>

lemma create_then_update:
  assumes "ss_userId st = Some userId" and "userId \<noteq> ''''"
    and "\<not> truthy (ss_syllabusId st)" and "\<not> truthy (el_syllabusId st)"
    and "inFlight st = []"
    and "\<not> list_ex (\<lambda>(key, v). v = '''') (fd_scalars formData)"
    and "\<not> list_ex (\<lambda>(key, v). v = '''') (fd_scalars formData')"
    and "responseOk response" and "resp_body response = JsonObject (Some newId)" and "newId \<noteq> ''''"
  shows "map (\<lambda>r. (req_method r, req_url r))
           (sent (run st [Save False formData t1, Deliver 0 (Response response), Save False formData' t2]))
         = map (\<lambda>r. (req_method r, req_url r)) (sent st)
             @ [(POST, ''/syllabus''), (PUT, ''/syllabus/update/'' @ newId)]"
  using assms
  by (auto simp: run_def saveFormData_def saveFormData_resumed_def truthy_def Let_def
      split: option.splits)

text \<open>
  Claim C5 on a page opened on syllabus \<^verbatim>\<open>abc\<close>: the update is answered 404, the
  stored id is removed, and the next save takes the id from the hidden input: it is an
  update to \<^verbatim>\<open>abc\<close> again, not a create.
\<close>

theorem update_after_404_is_update_again:
  "map (\<lambda>r. (req_method r, req_url r))
     (sent (run openedSession
        [Save True filledFormData ''2024-01-01T10:00:00.000Z'',
         Deliver 0 (Response \<lparr>resp_status = 404, resp_body = JsonObject None\<rparr>),
         Save False filledFormData ''2024-01-01T10:00:30.000Z'']))
     = [(PUT, ''/syllabus/update/abc''), (PUT, ''/syllabus/update/abc'')]
   \<and> ss_syllabusId (run openedSession
        [Save True filledFormData ''2024-01-01T10:00:00.000Z'',
         Deliver 0 (Response \<lparr>resp_status = 404, resp_body = JsonObject None\<rparr>)]) = None"
  using filledFormData_valid
  by (simp add: run_def saveFormData_def saveFormData_resumed_def responseOk_def newSession_def
      openedSession_def truthy_def Let_def)

text \<open>Without a value in the hidden input, the save after the 404 is a create.\<close>

lemma create_after_404:
  assumes "ss_userId st = Some userId" and "userId \<noteq> ''''"
    and "ss_syllabusId st = Some i" and "i \<noteq> ''''" and "\<not> truthy (el_syllabusId st)"
    and "inFlight st = []"
    and "\<not> list_ex (\<lambda>(key, v). v = '''') (fd_scalars formData)"
    and "\<not> list_ex (\<lambda>(key, v). v = '''') (fd_scalars formData')"
    and "resp_status response = 404" and "resp_body response \<noteq> NotJson"
  shows "map (\<lambda>r. (req_method r, req_url r))
           (sent (run st [Save False formData t1, Deliver 0 (Response response), Save False formData' t2]))
         = map (\<lambda>r. (req_method r, req_url r)) (sent st)
             @ [(PUT, ''/syllabus/update/'' @ i), (POST, ''/syllabus'')]"
  using assms
  by (auto simp: run_def saveFormData_def saveFormData_resumed_def responseOk_def truthy_def Let_def
      split: option.splits response_body.splits)

end
